theory Spec2Isabelle
  imports Complex_Main "HOL-Library.Monad_Syntax"
begin

section \<open>Numbers, vectors and buffers\<close>

text \<open>
  The shaders compute on \<open>f32\<close> and the JavaScript on doubles. Both are modelled by the
  reals: rounding is not represented. What is represented is where real arithmetic is
  partial: a division whose divisor is zero yields no finite number (the floating-point
  result is an infinity or a NaN). Such a division is \<open>None\<close>, and \<open>None\<close> propagates
  through everything computed from it. Throughout, a function of the model returns
  \<open>Some\<close> of its result when the source runs to its end and every number it computes
  is finite, and \<open>None\<close> when the source throws, reads out of range, or computes a number
  that is not finite.
\<close>

definition fdiv :: "real \<Rightarrow> real \<Rightarrow> real option" where
  "fdiv a b = (if b = 0 then None else Some (a / b))"

text \<open>\<open>vec3<f32>\<close> of WGSL; the three-element arrays \<open>[x, y, z]\<close> of the JavaScript.\<close>

datatype vec3 = Vec3 (vx: real) (vy: real) (vz: real)

definition with_x :: "vec3 \<Rightarrow> real \<Rightarrow> vec3" where
  "with_x v a = Vec3 a (vy v) (vz v)"

definition with_y :: "vec3 \<Rightarrow> real \<Rightarrow> vec3" where
  "with_y v a = Vec3 (vx v) a (vz v)"

definition with_z :: "vec3 \<Rightarrow> real \<Rightarrow> vec3" where
  "with_z v a = Vec3 (vx v) (vy v) a"

definition vadd :: "vec3 \<Rightarrow> vec3 \<Rightarrow> vec3" where
  "vadd a b = Vec3 (vx a + vx b) (vy a + vy b) (vz a + vz b)"

definition vsub :: "vec3 \<Rightarrow> vec3 \<Rightarrow> vec3" where
  "vsub a b = Vec3 (vx a - vx b) (vy a - vy b) (vz a - vz b)"

definition vneg :: "vec3 \<Rightarrow> vec3" where
  "vneg a = Vec3 (- vx a) (- vy a) (- vz a)"

definition smul :: "real \<Rightarrow> vec3 \<Rightarrow> vec3" where
  "smul k a = Vec3 (k * vx a) (k * vy a) (k * vz a)"

definition dot :: "vec3 \<Rightarrow> vec3 \<Rightarrow> real" where
  "dot a b = vx a * vx b + vy a * vy b + vz a * vz b"

definition vlength :: "vec3 \<Rightarrow> real" where
  "vlength a = sqrt (dot a a)"

text \<open>\<open>v / s\<close> for a vector and a scalar: componentwise division.\<close>

definition vdiv :: "vec3 \<Rightarrow> real \<Rightarrow> vec3 option" where
  "vdiv a s = do {
     x \<leftarrow> fdiv (vx a) s;
     y \<leftarrow> fdiv (vy a) s;
     z \<leftarrow> fdiv (vz a) s;
     Some (Vec3 x y z) }"

text \<open>The WGSL builtin \<open>normalize(e)\<close> is \<open>e / length(e)\<close>.\<close>

definition normalize :: "vec3 \<Rightarrow> vec3 option" where
  "normalize e = vdiv e (vlength e)"

text \<open>
  The \<open>Particle\<close> struct of the shaders: eight floats. The CPU simulation keeps objects
  with the first three fields and writes the padding as 0 when it uploads them.
\<close>

record Particle =
  position :: vec3
  mass :: real
  velocity :: vec3
  padding :: real

text \<open>
  The uniform \<open>SimParams\<close>. \<open>particleCount\<close> and the invocation index are \<open>u32\<close>; they are
  only compared and counted up to \<open>particleCount\<close>, so no operation on them can wrap and
  they are natural numbers here.
\<close>

record SimParams =
  particleCount :: nat
  deltaTime :: real
  gravityStrength :: real
  damping :: real

text \<open>
  The two storage buffers the kernels are bound to. A read at an index beyond the
  buffer has no determined value in WGSL and is \<open>None\<close>; a write beyond the buffer is
  discarded, which is what \<open>xs[i := v]\<close> does.
\<close>

record Buffers =
  particleBuffer :: "Particle list"
  forceBuffer :: "vec3 list"

definition arrayRead :: "'a list \<Rightarrow> nat \<Rightarrow> 'a option" where
  "arrayRead xs i = (if i < length xs then Some (xs ! i) else None)"

section \<open>The force kernel (force-compute.wgsl)\<close>

text \<open>
  The body of the loop for one \<open>other\<close> particle: the vector added to \<open>totalForce\<close>.
  The softened \<open>distance\<close> is bound as in the source, and as in the source nothing
  reads it.
\<close>

definition forceContribution :: "SimParams \<Rightarrow> Particle \<Rightarrow> Particle \<Rightarrow> vec3 option" where
  "forceContribution params particle other =
     (let r = vsub (position other) (position particle);
          distanceSquared = dot r r;
          epsilon = 0.01;
          distance = sqrt (distanceSquared + epsilon * epsilon)
      in do {
        forceMagnitude \<leftarrow>
          fdiv (SimParams.gravityStrength params * mass particle * mass other) distanceSquared;
        forceDirection \<leftarrow> normalize r;
        Some (smul forceMagnitude forceDirection) })"

text \<open>\<open>for (var i = 0u; i < params.particleCount; i++)\<close>, entered with \<open>i\<close> and \<open>totalForce\<close>.\<close>

function forceLoop ::
  "SimParams \<Rightarrow> Particle list \<Rightarrow> nat \<Rightarrow> Particle \<Rightarrow> nat \<Rightarrow> vec3 \<Rightarrow> vec3 option" where
  "forceLoop params particlesIn index particle i totalForce =
     (if i < SimParams.particleCount params then
        (if i = index then forceLoop params particlesIn index particle (Suc i) totalForce
         else do {
           other \<leftarrow> arrayRead particlesIn i;
           f \<leftarrow> forceContribution params particle other;
           forceLoop params particlesIn index particle (Suc i) (vadd totalForce f) })
      else Some totalForce)"
  by pat_completeness auto
termination
  by (relation "measure (\<lambda>(params, particlesIn, index, particle, i, totalForce).
        SimParams.particleCount params - i)") auto

declare forceLoop.simps [simp del]

definition computeForces :: "SimParams \<Rightarrow> nat \<Rightarrow> Buffers \<Rightarrow> Buffers option" where
  "computeForces params index st =
     (if index \<ge> SimParams.particleCount params then Some st
      else do {
        particle \<leftarrow> arrayRead (particleBuffer st) index;
        totalForce \<leftarrow> forceLoop params (particleBuffer st) index particle 0 (Vec3 0 0 0);
        Some (st\<lparr>forceBuffer := (forceBuffer st)[index := totalForce]\<rparr>) })"

section \<open>The integration kernel (integrate-compute.wgsl)\<close>

text \<open>
  The velocity and position update of \<open>integrateParticles\<close>:
  \<open>acceleration = force / particle.mass\<close>, \<open>velocity += acceleration * deltaTime\<close>,
  \<open>velocity *= damping\<close>, \<open>position += velocity * deltaTime\<close>.
\<close>

definition integrateMotion :: "SimParams \<Rightarrow> vec3 \<Rightarrow> Particle \<Rightarrow> Particle option" where
  "integrateMotion params force particle = do {
     acceleration \<leftarrow> vdiv force (mass particle);
     let p1 = particle\<lparr>velocity := vadd (velocity particle) (smul (deltaTime params) acceleration)\<rparr>;
     let p2 = p1\<lparr>velocity := smul (SimParams.damping params) (velocity p1)\<rparr>;
     let p3 = p2\<lparr>position := vadd (position p2) (smul (deltaTime params) (velocity p2))\<rparr>;
     Some p3 }"

text \<open>The three boundary tests, in the order of the source; \<open>sign\<close> is \<open>sgn\<close>.\<close>

definition boundaryConditions :: "Particle \<Rightarrow> Particle" where
  "boundaryConditions particle =
     (let boundarySize = 50;
          restitution = 0.8;
          p1 = (if \<bar>vx (position particle)\<bar> > boundarySize
                then particle\<lparr>position := with_x (position particle)
                                      (sgn (vx (position particle)) * boundarySize),
                              velocity := with_x (velocity particle)
                                      (vx (velocity particle) * (- restitution))\<rparr>
                else particle);
          p2 = (if \<bar>vy (position p1)\<bar> > boundarySize
                then p1\<lparr>position := with_y (position p1) (sgn (vy (position p1)) * boundarySize),
                        velocity := with_y (velocity p1) (vy (velocity p1) * (- restitution))\<rparr>
                else p1);
          p3 = (if \<bar>vz (position p2)\<bar> > boundarySize
                then p2\<lparr>position := with_z (position p2) (sgn (vz (position p2)) * boundarySize),
                        velocity := with_z (velocity p2) (vz (velocity p2) * (- restitution))\<rparr>
                else p2)
      in p3)"

definition integrateParticles :: "SimParams \<Rightarrow> nat \<Rightarrow> Buffers \<Rightarrow> Buffers option" where
  "integrateParticles params index st =
     (if index \<ge> SimParams.particleCount params then Some st
      else do {
        particle \<leftarrow> arrayRead (particleBuffer st) index;
        force \<leftarrow> arrayRead (forceBuffer st) index;
        moved \<leftarrow> integrateMotion params force particle;
        Some (st\<lparr>particleBuffer := (particleBuffer st)[index := boundaryConditions moved]\<rparr>) })"

text \<open>
  One dispatch runs the kernel once for every invocation index of the grid. The
  invocations of one dispatch are independent of each other (an invocation of
  \<open>computeForces\<close> reads the particle buffer and writes its own force slot, an invocation of
  \<open>integrateParticles\<close> reads and writes its own particle and reads its own force slot),
  so they are run here one after the other.
\<close>

fun dispatch :: "(nat \<Rightarrow> Buffers \<Rightarrow> Buffers option) \<Rightarrow> nat list \<Rightarrow> Buffers \<Rightarrow> Buffers option" where
  "dispatch entry [] st = Some st"
| "dispatch entry (index # rest) st = do { st' \<leftarrow> entry index st; dispatch entry rest st' }"

text \<open>
  The two compute passes of \<open>render\<close> in main.js: each is
  \<open>dispatchWorkgroups(Math.ceil(particleCount / 64))\<close> with workgroups of 64 invocations.
\<close>

definition invocations :: "SimParams \<Rightarrow> nat list" where
  "invocations params = [0 ..< 64 * ((SimParams.particleCount params + 63) div 64)]"

definition computeFrame :: "SimParams \<Rightarrow> Buffers \<Rightarrow> Buffers option" where
  "computeFrame params st = do {
     st1 \<leftarrow> dispatch (computeForces params) (invocations params) st;
     dispatch (integrateParticles params) (invocations params) st1 }"

fun computeFrames :: "nat \<Rightarrow> SimParams \<Rightarrow> Buffers \<Rightarrow> Buffers option" where
  "computeFrames 0 params st = Some st"
| "computeFrames (Suc n) params st = do { st' \<leftarrow> computeFrame params st; computeFrames n params st' }"

section \<open>The CPU simulation (SimpleNBodySimulation)\<close>

text \<open>
  The fields of the simulation object that the physics and the initialisation use.
  \<open>particleCount\<close> is a JavaScript number that is only ever assigned an integer.
  A read of \<open>this.particles[i]\<close> beyond the array gives \<open>undefined\<close> and the next field
  access throws; that is \<open>None\<close> as well. \<open>NBodySimulation\<close> of main.js has the same four
  parameters; its \<open>particles\<close> are the contents of its particle buffer.
\<close>

record Simulation =
  particleCount :: int
  gravityStrength :: real
  timeScale :: real
  damping :: real
  particles :: "Particle list"

text \<open>The body of the inner loop of \<open>updatePhysics\<close>: what is added to \<open>forces[i]\<close>.\<close>

definition pairForce :: "real \<Rightarrow> Particle \<Rightarrow> Particle \<Rightarrow> vec3 option" where
  "pairForce G particle other =
     (let dx = vx (position other) - vx (position particle);
          dy = vy (position other) - vy (position particle);
          dz = vz (position other) - vz (position particle);
          distanceSquared = dx * dx + dy * dy + dz * dz + 0.01;
          distance = sqrt distanceSquared
      in do {
        force \<leftarrow> fdiv (G * mass particle * mass other) distanceSquared;
        fx \<leftarrow> fdiv (force * dx) distance;
        fy \<leftarrow> fdiv (force * dy) distance;
        fz \<leftarrow> fdiv (force * dz) distance;
        Some (Vec3 fx fy fz) })"

text \<open>\<open>for (let j = 0; j < this.particleCount; j++)\<close>, entered with \<open>j\<close> and the value of \<open>forces[i]\<close>.\<close>

function pairLoop :: "Simulation \<Rightarrow> nat \<Rightarrow> Particle \<Rightarrow> nat \<Rightarrow> vec3 \<Rightarrow> vec3 option" where
  "pairLoop this i particle j acc =
     (if int j < Simulation.particleCount this then
        (if i = j then pairLoop this i particle (Suc j) acc
         else do {
           other \<leftarrow> arrayRead (particles this) j;
           f \<leftarrow> pairForce (Simulation.gravityStrength this) particle other;
           pairLoop this i particle (Suc j) (vadd acc f) })
      else Some acc)"
  by pat_completeness auto
termination
  by (relation "measure (\<lambda>(this, i, particle, j, acc).
        nat (Simulation.particleCount this - int j))") auto

declare pairLoop.simps [simp del]

text \<open>\<open>for (let i = 0; i < this.particleCount; i++)\<close> of the force pass; \<open>forces[i] = ...\<close> appends.\<close>

function forcesLoop :: "Simulation \<Rightarrow> nat \<Rightarrow> vec3 list \<Rightarrow> vec3 list option" where
  "forcesLoop this i forces =
     (if int i < Simulation.particleCount this then do {
        particle \<leftarrow> arrayRead (particles this) i;
        f \<leftarrow> pairLoop this i particle 0 (Vec3 0 0 0);
        forcesLoop this (Suc i) (forces @ [f]) }
      else Some forces)"
  by pat_completeness auto
termination
  by (relation "measure (\<lambda>(this, i, forces). nat (Simulation.particleCount this - int i))") auto

declare forcesLoop.simps [simp del]

text \<open>The update of one particle in the integration loop, before the boundary tests.\<close>

definition moveParticle :: "real \<Rightarrow> real \<Rightarrow> vec3 \<Rightarrow> Particle \<Rightarrow> Particle option" where
  "moveParticle dt damp force particle = do {
     ax \<leftarrow> fdiv (vx force) (mass particle);
     ay \<leftarrow> fdiv (vy force) (mass particle);
     az \<leftarrow> fdiv (vz force) (mass particle);
     let v1 = Vec3 (vx (velocity particle) + ax * dt)
                   (vy (velocity particle) + ay * dt)
                   (vz (velocity particle) + az * dt);
     let v2 = Vec3 (vx v1 * damp) (vy v1 * damp) (vz v1 * damp);
     let x1 = Vec3 (vx (position particle) + vx v2 * dt)
                   (vy (position particle) + vy v2 * dt)
                   (vz (position particle) + vz v2 * dt);
     Some (particle\<lparr>position := x1, velocity := v2\<rparr>) }"

text \<open>The boundary tests of the integration loop, \<open>Math.sign\<close> being \<open>sgn\<close>.\<close>

definition bounceParticle :: "Particle \<Rightarrow> Particle" where
  "bounceParticle particle =
     (let boundarySize = 50.0;
          restitution = 0.8;
          p1 = (if \<bar>vx (position particle)\<bar> > boundarySize
                then particle\<lparr>position := with_x (position particle)
                                      (sgn (vx (position particle)) * boundarySize),
                              velocity := with_x (velocity particle)
                                      (vx (velocity particle) * (- restitution))\<rparr>
                else particle);
          p2 = (if \<bar>vy (position p1)\<bar> > boundarySize
                then p1\<lparr>position := with_y (position p1) (sgn (vy (position p1)) * boundarySize),
                        velocity := with_y (velocity p1) (vy (velocity p1) * (- restitution))\<rparr>
                else p1);
          p3 = (if \<bar>vz (position p2)\<bar> > boundarySize
                then p2\<lparr>position := with_z (position p2) (sgn (vz (position p2)) * boundarySize),
                        velocity := with_z (velocity p2) (vz (velocity p2) * (- restitution))\<rparr>
                else p2)
      in p3)"

text \<open>
  \<open>for (let i = 0; i < this.particleCount; i++)\<close> of the integration pass. The particle
  objects are updated in place, so the list is updated at \<open>i\<close>.
\<close>

function integrateLoop :: "Simulation \<Rightarrow> real \<Rightarrow> vec3 list \<Rightarrow> nat \<Rightarrow> Particle list
    \<Rightarrow> Particle list option" where
  "integrateLoop this dt forces i ps =
     (if int i < Simulation.particleCount this then do {
        particle \<leftarrow> arrayRead ps i;
        force \<leftarrow> arrayRead forces i;
        moved \<leftarrow> moveParticle dt (Simulation.damping this) force particle;
        integrateLoop this dt forces (Suc i) (ps[i := bounceParticle moved]) }
      else Some ps)"
  by pat_completeness auto
termination
  by (relation "measure (\<lambda>(this, dt, forces, i, ps).
        nat (Simulation.particleCount this - int i))") auto

declare integrateLoop.simps [simp del]

definition updatePhysics :: "real \<Rightarrow> Simulation \<Rightarrow> Simulation option" where
  "updatePhysics delta this =
     (let dt = delta * timeScale this in do {
        forces \<leftarrow> forcesLoop this 0 [];
        ps \<leftarrow> integrateLoop this dt forces 0 (particles this);
        Some (this\<lparr>particles := ps\<rparr>) })"

text \<open>\<open>render\<close> calls \<open>updatePhysics(0.016)\<close> once per frame.\<close>

fun physicsFrames :: "nat \<Rightarrow> Simulation \<Rightarrow> Simulation option" where
  "physicsFrames 0 this = Some this"
| "physicsFrames (Suc n) this = do { this' \<leftarrow> updatePhysics 0.016 this; physicsFrames n this' }"

section \<open>Initialisation and resizing of the particle store\<close>

text \<open>\<open>Math.sqrt\<close> of a negative number is NaN.\<close>

definition fsqrt :: "real \<Rightarrow> real option" where
  "fsqrt a = (if a < 0 then None else Some (sqrt a))"

text \<open>
  \<open>Math.random()\<close> is a sequence \<open>rnd\<close> of numbers, each in \<open>[0, 1)\<close>, and a cursor \<open>k\<close>: the
  body of the initialisation loop draws \<open>rnd k\<close> for the radius, \<open>rnd (k + 1)\<close> for theta,
  \<open>rnd (k + 2)\<close> for phi and \<open>rnd (k + 3)\<close> for the mass, in the order in which the source
  evaluates the calls.
\<close>

text \<open>The loop body of \<open>SimpleNBodySimulation.initializeParticles\<close>: the particle pushed.\<close>

definition Simple_newParticle :: "real \<Rightarrow> (nat \<Rightarrow> real) \<Rightarrow> nat \<Rightarrow> Particle option" where
  "Simple_newParticle G rnd k =
     (let radius = rnd k * 20 + 5;
          theta = rnd (k + 1) * pi * 2;
          phi = arccos (2 * rnd (k + 2) - 1);
          particle = \<lparr>position = Vec3 (radius * sin phi * cos theta)
                                      (radius * sin phi * sin theta)
                                      (radius * cos phi),
                      mass = rnd (k + 3) * 0.5 + 0.5,
                      velocity = Vec3 0 0 0,
                      padding = 0\<rparr>
      in do {
        q \<leftarrow> fdiv (G * 100) radius;
        root \<leftarrow> fsqrt q;
        let speed = root * 0.3;
        Some (particle\<lparr>velocity := Vec3 (- speed * sin theta) (speed * cos theta) 0\<rparr>) })"

function Simple_initLoop ::
  "(nat \<Rightarrow> real) \<Rightarrow> Simulation \<Rightarrow> nat \<Rightarrow> Particle list \<Rightarrow> Particle list option" where
  "Simple_initLoop rnd this i ps =
     (if int i < Simulation.particleCount this then do {
        particle \<leftarrow> Simple_newParticle (Simulation.gravityStrength this) rnd (4 * i);
        Simple_initLoop rnd this (Suc i) (ps @ [particle]) }
      else Some ps)"
  by pat_completeness auto
termination
  by (relation "measure (\<lambda>(rnd, this, i, ps). nat (Simulation.particleCount this - int i))") auto

declare Simple_initLoop.simps [simp del]

definition Simple_initializeParticles :: "(nat \<Rightarrow> real) \<Rightarrow> Simulation \<Rightarrow> Simulation option" where
  "Simple_initializeParticles rnd this = do {
     ps \<leftarrow> Simple_initLoop rnd this 0 [];
     let ps' = (if length ps > 0
                then ps[0 := (ps ! 0)\<lparr>position := Vec3 0 0 0, velocity := Vec3 0 0 0, mass := 2.0\<rparr>]
                else ps);
     Some (this\<lparr>particles := ps'\<rparr>) }"

text \<open>
  \<open>NBodySimulation.initializeParticles\<close> of main.js fills a \<open>Float32Array\<close> of
  \<open>particleCount * 8\<close> floats, eight per particle in the order of the \<open>Particle\<close> struct,
  and uploads it to the particle buffer; \<open>particles[offset + 0 .. 7]\<close> are the fields of
  particle \<open>i\<close>. The array constructor throws for a negative length. It also throws for
  a length beyond what the platform allocates; that bound enters where a count is
  requested, in \<open>setParticleCount\<close> below.
\<close>

definition NBody_newParticle :: "real \<Rightarrow> (nat \<Rightarrow> real) \<Rightarrow> nat \<Rightarrow> Particle option" where
  "NBody_newParticle G rnd k =
     (let radius = rnd k * 20 + 5;
          theta = rnd (k + 1) * pi * 2;
          phi = arccos (2 * rnd (k + 2) - 1);
          x = radius * sin phi * cos theta;
          y = radius * sin phi * sin theta;
          z = radius * cos phi;
          m = rnd (k + 3) * 0.5 + 0.5
      in do {
        q \<leftarrow> fdiv (G * 100) radius;
        root \<leftarrow> fsqrt q;
        let speed = root * 0.3;
        Some \<lparr>position = Vec3 x y z, mass = m,
              velocity = Vec3 (- speed * sin theta) (speed * cos theta) 0, padding = 0\<rparr> })"

function NBody_initLoop ::
  "(nat \<Rightarrow> real) \<Rightarrow> Simulation \<Rightarrow> nat \<Rightarrow> Particle list \<Rightarrow> Particle list option" where
  "NBody_initLoop rnd this i ps =
     (if int i < Simulation.particleCount this then do {
        particle \<leftarrow> NBody_newParticle (Simulation.gravityStrength this) rnd (4 * i);
        NBody_initLoop rnd this (Suc i) (ps @ [particle]) }
      else Some ps)"
  by pat_completeness auto
termination
  by (relation "measure (\<lambda>(rnd, this, i, ps). nat (Simulation.particleCount this - int i))") auto

declare NBody_initLoop.simps [simp del]

definition NBody_initializeParticles :: "(nat \<Rightarrow> real) \<Rightarrow> Simulation \<Rightarrow> Simulation option" where
  "NBody_initializeParticles rnd this =
     (if Simulation.particleCount this * 8 < 0 then None
      else do {
        ps \<leftarrow> NBody_initLoop rnd this 0 [];
        let ps' = (if Simulation.particleCount this > 0
                   then ps[0 := \<lparr>position = Vec3 0 0 0, mass = 1.0,
                                 velocity = Vec3 0 0 0, padding = 0\<rparr>]
                   else ps);
        Some (this\<lparr>particles := ps'\<rparr>) })"

text \<open>
  \<open>setParticleCount(count)\<close>. The CPU simulation caps the count; it then rebuilds the
  store. Neither method returns a value, and neither has a statement that reports an
  error to its caller.
\<close>

definition Simple_setParticleCount ::
  "(nat \<Rightarrow> real) \<Rightarrow> real \<Rightarrow> Simulation \<Rightarrow> Simulation option" where
  "Simple_setParticleCount rnd count this =
     Simple_initializeParticles rnd (this\<lparr>Simulation.particleCount := \<lfloor>min count 4000\<rfloor>\<rparr>)"

text \<open>
  The GPU simulation assigns the count and then rebuilds its buffers (\<open>initResources\<close>),
  its pipelines and the store (\<open>initializeParticles\<close>) in a chain of promises that nothing
  observes. A platform creates buffers and arrays only up to some size: for a larger
  count \<open>createBuffer\<close> gives no usable buffer and \<open>new Float32Array\<close> throws, the chain stops
  there, and no store is rebuilt. The bound is not in the repository; it is the
  parameter \<open>maxParticles\<close>, the largest particle count that the platform allocates.
  The result below is the simulation once the chain has settled: \<open>None\<close> when the rebuild
  failed.
\<close>

definition NBody_setParticleCount ::
  "int \<Rightarrow> (nat \<Rightarrow> real) \<Rightarrow> real \<Rightarrow> Simulation \<Rightarrow> Simulation option" where
  "NBody_setParticleCount maxParticles rnd count this =
     (let resized = this\<lparr>Simulation.particleCount := \<lfloor>count\<rfloor>\<rparr>
      in if Simulation.particleCount resized > maxParticles then None
         else NBody_initializeParticles rnd resized)"

definition Simple_resetSimulation :: "(nat \<Rightarrow> real) \<Rightarrow> Simulation \<Rightarrow> Simulation option" where
  "Simple_resetSimulation rnd this = Simple_initializeParticles rnd this"

definition NBody_resetSimulation :: "(nat \<Rightarrow> real) \<Rightarrow> Simulation \<Rightarrow> Simulation option" where
  "NBody_resetSimulation rnd this = NBody_initializeParticles rnd this"

section \<open>The camera controller\<close>

text \<open>
  The fields of \<open>CameraController\<close>; \<open>cameraPosition\<close> and \<open>cameraUp\<close> are
  \<open>this.camera.position\<close> and \<open>this.camera.up\<close>. \<open>rotMatrix\<close> is an array of nine numbers
  in row-major order.
\<close>

record CameraController =
  isMouseDown :: bool
  lastMouseX :: real
  lastMouseY :: real
  distance :: real
  targetDistance :: real
  rotMatrix :: "real list"
  smoothing :: real
  cameraPosition :: vec3
  cameraUp :: vec3

definition updateCameraPosition :: "CameraController \<Rightarrow> CameraController" where
  "updateCameraPosition this =
     (let x = rotMatrix this ! 2 * distance this;
          y = rotMatrix this ! 5 * distance this;
          z = rotMatrix this ! 8 * distance this
      in this\<lparr>cameraPosition := Vec3 x y z,
              cameraUp := Vec3 (rotMatrix this ! 1) (rotMatrix this ! 4) (rotMatrix this ! 7)\<rparr>)"

definition multiply3x3 :: "real list \<Rightarrow> real list \<Rightarrow> real list" where
  "multiply3x3 a b =
     [a ! 0 * b ! 0 + a ! 1 * b ! 3 + a ! 2 * b ! 6,
      a ! 0 * b ! 1 + a ! 1 * b ! 4 + a ! 2 * b ! 7,
      a ! 0 * b ! 2 + a ! 1 * b ! 5 + a ! 2 * b ! 8,
      a ! 3 * b ! 0 + a ! 4 * b ! 3 + a ! 5 * b ! 6,
      a ! 3 * b ! 1 + a ! 4 * b ! 4 + a ! 5 * b ! 7,
      a ! 3 * b ! 2 + a ! 4 * b ! 5 + a ! 5 * b ! 8,
      a ! 6 * b ! 0 + a ! 7 * b ! 3 + a ! 8 * b ! 6,
      a ! 6 * b ! 1 + a ! 7 * b ! 4 + a ! 8 * b ! 7,
      a ! 6 * b ! 2 + a ! 7 * b ! 5 + a ! 8 * b ! 8]"

text \<open>The Rodrigues matrix built by \<open>rotateAroundAxis\<close>.\<close>

definition rodrigues :: "real \<Rightarrow> real \<Rightarrow> real \<Rightarrow> real \<Rightarrow> real list" where
  "rodrigues axisX axisY axisZ angle =
     (let c = cos angle;
          s = sin angle;
          oneMinusCos = 1 - c
      in [c + axisX * axisX * oneMinusCos,
          axisX * axisY * oneMinusCos - axisZ * s,
          axisX * axisZ * oneMinusCos + axisY * s,

          axisY * axisX * oneMinusCos + axisZ * s,
          c + axisY * axisY * oneMinusCos,
          axisY * axisZ * oneMinusCos - axisX * s,

          axisZ * axisX * oneMinusCos - axisY * s,
          axisZ * axisY * oneMinusCos + axisX * s,
          c + axisZ * axisZ * oneMinusCos])"

definition rotateAroundAxis ::
  "real \<Rightarrow> real \<Rightarrow> real \<Rightarrow> real \<Rightarrow> CameraController \<Rightarrow> CameraController" where
  "rotateAroundAxis axisX axisY axisZ angle this =
     this\<lparr>rotMatrix := multiply3x3 (rodrigues axisX axisY axisZ angle) (rotMatrix this)\<rparr>"

definition rotateAroundCameraUp :: "real \<Rightarrow> CameraController \<Rightarrow> CameraController" where
  "rotateAroundCameraUp angle this =
     (let upX = rotMatrix this ! 1;
          upY = rotMatrix this ! 4;
          upZ = rotMatrix this ! 7
      in rotateAroundAxis upX upY upZ angle this)"

definition rotateAroundCameraRight :: "real \<Rightarrow> CameraController \<Rightarrow> CameraController" where
  "rotateAroundCameraRight angle this =
     (let rightX = rotMatrix this ! 0;
          rightY = rotMatrix this ! 3;
          rightZ = rotMatrix this ! 6
      in rotateAroundAxis rightX rightY rightZ angle this)"

definition onMouseDown :: "real \<Rightarrow> real \<Rightarrow> CameraController \<Rightarrow> CameraController" where
  "onMouseDown clientX clientY this =
     this\<lparr>isMouseDown := True, lastMouseX := clientX, lastMouseY := clientY\<rparr>"

text \<open>The drag step shared by \<open>onMouseMove\<close> and \<open>onTouchMove\<close>.\<close>

definition dragTo :: "real \<Rightarrow> real \<Rightarrow> CameraController \<Rightarrow> CameraController" where
  "dragTo clientX clientY this =
     (let deltaX = clientX - lastMouseX this;
          deltaY = clientY - lastMouseY this;
          rotationSpeed = 0.01;
          this1 = (if \<bar>deltaX\<bar> > 0.001
                   then rotateAroundCameraUp (- deltaX * rotationSpeed) this else this);
          this2 = (if \<bar>deltaY\<bar> > 0.001
                   then rotateAroundCameraRight (- deltaY * rotationSpeed) this1 else this1)
      in updateCameraPosition (this2\<lparr>lastMouseX := clientX, lastMouseY := clientY\<rparr>))"

definition onMouseMove :: "real \<Rightarrow> real \<Rightarrow> CameraController \<Rightarrow> CameraController" where
  "onMouseMove clientX clientY this =
     (if \<not> isMouseDown this then this else dragTo clientX clientY this)"

definition onMouseUp :: "CameraController \<Rightarrow> CameraController" where
  "onMouseUp this = this\<lparr>isMouseDown := False\<rparr>"

definition onWheel :: "real \<Rightarrow> CameraController \<Rightarrow> CameraController" where
  "onWheel deltaY this =
     (let zoomSpeed = 0.1;
          zoomDelta = (if deltaY > 0 then 1 + zoomSpeed else 1 - zoomSpeed)
      in this\<lparr>targetDistance := max 10 (min 500 (targetDistance this * zoomDelta))\<rparr>)"

text \<open>A touch event carries the list \<open>e.touches\<close> of \<open>(clientX, clientY)\<close> pairs.\<close>

definition onTouchStart :: "(real \<times> real) list \<Rightarrow> CameraController \<Rightarrow> CameraController" where
  "onTouchStart touches this =
     (if length touches = 1
      then this\<lparr>isMouseDown := True, lastMouseX := fst (touches ! 0),
                lastMouseY := snd (touches ! 0)\<rparr>
      else this)"

definition onTouchMove :: "(real \<times> real) list \<Rightarrow> CameraController \<Rightarrow> CameraController" where
  "onTouchMove touches this =
     (if length touches = 1 \<and> isMouseDown this
      then dragTo (fst (touches ! 0)) (snd (touches ! 0)) this
      else this)"

definition onTouchEnd :: "CameraController \<Rightarrow> CameraController" where
  "onTouchEnd this = this\<lparr>isMouseDown := False\<rparr>"

definition update :: "CameraController \<Rightarrow> CameraController" where
  "update this =
     updateCameraPosition
       (this\<lparr>distance := distance this + (targetDistance this - distance this) * smoothing this\<rparr>)"

definition reset :: "CameraController \<Rightarrow> CameraController" where
  "reset this =
     updateCameraPosition
       (this\<lparr>distance := 100, targetDistance := 100, rotMatrix := [1, 0, 0, 0, 1, 0, 0, 0, 1]\<rparr>)"

text \<open>The constructor, given the position and up vector of the camera object it is handed.\<close>

definition newCameraController :: "vec3 \<Rightarrow> vec3 \<Rightarrow> CameraController" where
  "newCameraController pos up =
     updateCameraPosition
       \<lparr>isMouseDown = False, lastMouseX = 0, lastMouseY = 0, distance = 100,
        targetDistance = 100, rotMatrix = [1, 0, 0, 0, 1, 0, 0, 0, 1], smoothing = 0.1,
        cameraPosition = pos, cameraUp = up\<rparr>"

text \<open>
  What reaches a controller: the events registered by \<open>setupEventListeners\<close>, and the
  calls of \<open>update\<close> (once per frame) and \<open>reset\<close>.
\<close>

datatype input =
    MouseDown real real
  | MouseMove real real
  | MouseUp
  | Wheel real
  | TouchStart "(real \<times> real) list"
  | TouchMove "(real \<times> real) list"
  | TouchEnd
  | Update
  | Reset

fun handle :: "input \<Rightarrow> CameraController \<Rightarrow> CameraController" where
  "handle (MouseDown x y) this = onMouseDown x y this"
| "handle (MouseMove x y) this = onMouseMove x y this"
| "handle MouseUp this = onMouseUp this"
| "handle (Wheel deltaY) this = onWheel deltaY this"
| "handle (TouchStart touches) this = onTouchStart touches this"
| "handle (TouchMove touches) this = onTouchMove touches this"
| "handle TouchEnd this = onTouchEnd this"
| "handle Update this = update this"
| "handle Reset this = reset this"

fun handleAll :: "input list \<Rightarrow> CameraController \<Rightarrow> CameraController" where
  "handleAll [] this = this"
| "handleAll (e # es) this = handleAll es (handle e this)"

text \<open>A sequence of drag rotations, each around the current up or right axis.\<close>

datatype rotation = AroundCameraUp real | AroundCameraRight real

fun rotate :: "rotation \<Rightarrow> CameraController \<Rightarrow> CameraController" where
  "rotate (AroundCameraUp angle) this = rotateAroundCameraUp angle this"
| "rotate (AroundCameraRight angle) this = rotateAroundCameraRight angle this"

fun rotateAll :: "rotation list \<Rightarrow> CameraController \<Rightarrow> CameraController" where
  "rotateAll [] this = this"
| "rotateAll (r # rs) this = rotateAll rs (rotate r this)"

fun updates :: "nat \<Rightarrow> CameraController \<Rightarrow> CameraController" where
  "updates 0 this = this"
| "updates (Suc n) this = updates n (update this)"

section \<open>Properties stated by the specification\<close>

text \<open>
  A 3x3 matrix is a proper rotation when its columns are orthonormal and its
  determinant is 1.
\<close>

definition column :: "real list \<Rightarrow> nat \<Rightarrow> vec3" where
  "column m j = Vec3 (m ! j) (m ! (3 + j)) (m ! (6 + j))"

definition orthonormal :: "real list \<Rightarrow> bool" where
  "orthonormal m \<longleftrightarrow>
     dot (column m 0) (column m 0) = 1 \<and> dot (column m 1) (column m 1) = 1 \<and>
     dot (column m 2) (column m 2) = 1 \<and> dot (column m 0) (column m 1) = 0 \<and>
     dot (column m 0) (column m 2) = 0 \<and> dot (column m 1) (column m 2) = 0"

definition det3 :: "real list \<Rightarrow> real" where
  "det3 m = m ! 0 * (m ! 4 * m ! 8 - m ! 5 * m ! 7)
          - m ! 1 * (m ! 3 * m ! 8 - m ! 5 * m ! 6)
          + m ! 2 * (m ! 3 * m ! 7 - m ! 4 * m ! 6)"

definition properRotation :: "real list \<Rightarrow> bool" where
  "properRotation m \<longleftrightarrow> length m = 9 \<and> orthonormal m \<and> det3 m = 1"

text \<open>
  Two particles mirror each other about the origin: equal masses, opposite positions
  and opposite velocities.
\<close>

definition mirrored :: "Particle \<Rightarrow> Particle \<Rightarrow> bool" where
  "mirrored a b \<longleftrightarrow>
     mass b = mass a \<and> position b = vneg (position a) \<and> velocity b = vneg (velocity a)"

text \<open>A two-particle store whose particles mirror each other.\<close>

definition mirroredPair :: "Particle list \<Rightarrow> bool" where
  "mirroredPair ps \<longleftrightarrow> length ps = 2 \<and> mirrored (ps ! 0) (ps ! 1)"

text \<open>
  The integration step as the specification words it: acceleration, velocity update,
  damping, then the position update with the damped velocity.
\<close>

definition eulerStep :: "real \<Rightarrow> real \<Rightarrow> vec3 \<Rightarrow> Particle \<Rightarrow> Particle" where
  "eulerStep dt damp F p =
     (let acceleration = Vec3 (vx F / mass p) (vy F / mass p) (vz F / mass p);
          v1 = vadd (velocity p) (smul dt acceleration);
          v2 = smul damp v1;
          x1 = vadd (position p) (smul dt v2)
      in p\<lparr>velocity := v2, position := x1\<rparr>)"

text \<open>
  The magnitude of the pair force as the specification words it:
  \<open>gravityStrength * m_i * m_j / d\<^sup>2\<close> with \<open>d\<^sup>2 = |r_j - r_i|\<^sup>2 + \<epsilon>\<^sup>2\<close> and \<open>\<epsilon> = 0.01\<close>.
\<close>

definition specForceMagnitude :: "real \<Rightarrow> Particle \<Rightarrow> Particle \<Rightarrow> real" where
  "specForceMagnitude G particle other =
     (let r = vsub (position other) (position particle);
          epsilon = 0.01;
          dSquared = dot r r + epsilon * epsilon
      in G * mass particle * mass other / dSquared)"

text \<open>
  What the specification says of every initial particle but the first: its distance
  from the origin is in \<open>[5, 25)\<close>, its mass in \<open>[0.5, 1.0)\<close>, its speed is
  \<open>sqrt(gravityStrength * 100 / radius) * 0.3\<close>, and its velocity is perpendicular to its
  position and has no z-component.
\<close>

definition initialOrbit :: "real \<Rightarrow> Particle \<Rightarrow> bool" where
  "initialOrbit G p \<longleftrightarrow>
     (let radius = vlength (position p)
      in 5 \<le> radius \<and> radius < 25 \<and> 0.5 \<le> mass p \<and> mass p < 1.0 \<and>
         vlength (velocity p) = sqrt (G * 100 / radius) * 0.3 \<and>
         dot (velocity p) (position p) = 0 \<and> vz (velocity p) = 0)"

text \<open>A sample sequence of random draws: every draw is one half.\<close>

definition halves :: "nat \<Rightarrow> real" where
  "halves k = 1 / 2"

text \<open>
  The particle that the loop body of either \<open>initializeParticles\<close> builds from the four
  draws at cursor \<open>k\<close>, where the speed is defined.
\<close>

definition drawn :: "real \<Rightarrow> (nat \<Rightarrow> real) \<Rightarrow> nat \<Rightarrow> Particle" where
  "drawn G rnd k =
     (let radius = rnd k * 20 + 5;
          theta = rnd (k + 1) * pi * 2;
          phi = arccos (2 * rnd (k + 2) - 1);
          speed = sqrt (G * 100 / radius) * 0.3
      in \<lparr>position = Vec3 (radius * sin phi * cos theta) (radius * sin phi * sin theta)
                           (radius * cos phi),
          mass = rnd (k + 3) * 0.5 + 0.5,
          velocity = Vec3 (- speed * sin theta) (speed * cos theta) 0,
          padding = 0\<rparr>)"


section \<open>Vectors, reads and divisions\<close>

lemma vec3_sel_simps [simp]:
  "vx (with_x v a) = a" "vy (with_x v a) = vy v" "vz (with_x v a) = vz v"
  "vx (with_y v a) = vx v" "vy (with_y v a) = a" "vz (with_y v a) = vz v"
  "vx (with_z v a) = vx v" "vy (with_z v a) = vy v" "vz (with_z v a) = a"
  by (simp_all add: with_x_def with_y_def with_z_def)

lemma sum_squares3_zero:
  fixes x y z :: real
  shows "x * x + y * y + z * z = 0 \<longleftrightarrow> x = 0 \<and> y = 0 \<and> z = 0"
proof
  assume h: "x * x + y * y + z * z = 0"
  have "0 \<le> x * x" "0 \<le> y * y" "0 \<le> z * z" by simp_all
  with h have "x * x = 0" "y * y = 0" "z * z = 0" by linarith+
  then show "x = 0 \<and> y = 0 \<and> z = 0" by simp
qed simp

lemma dot_self_zero: "dot r r = 0 \<longleftrightarrow> r = Vec3 0 0 0"
  by (cases r) (simp add: dot_def sum_squares3_zero)

lemma vlength_zero: "vlength r = 0 \<longleftrightarrow> r = Vec3 0 0 0"
  by (simp add: vlength_def dot_self_zero)

lemma vsub_zero: "vsub a b = Vec3 0 0 0 \<longleftrightarrow> a = b"
  by (cases a; cases b) (simp add: vsub_def)

lemma vdiv_Some: "s \<noteq> 0 \<Longrightarrow> vdiv a s = Some (Vec3 (vx a / s) (vy a / s) (vz a / s))"
  by (simp add: vdiv_def fdiv_def)

lemma arrayRead_Some: "i < length xs \<Longrightarrow> arrayRead xs i = Some (xs ! i)"
  by (simp add: arrayRead_def)

lemma arrayRead_eq_Some: "arrayRead xs i = Some x \<longleftrightarrow> i < length xs \<and> x = xs ! i"
  by (auto simp add: arrayRead_def)

section \<open>The boundary tests, axis by axis\<close>

lemma stage_x:
  fixes p :: Particle and c :: bool and a b :: real
  defines "p' \<equiv> (if c then p\<lparr>position := with_x (position p) a,
                                velocity := with_x (velocity p) b\<rparr> else p)"
  shows "vx (position p') = (if c then a else vx (position p))"
    "vy (position p') = vy (position p)" "vz (position p') = vz (position p)"
    "vx (velocity p') = (if c then b else vx (velocity p))"
    "vy (velocity p') = vy (velocity p)" "vz (velocity p') = vz (velocity p)"
    "mass p' = mass p" "padding p' = padding p"
  by (simp_all add: p'_def)

lemma stage_y:
  fixes p :: Particle and c :: bool and a b :: real
  defines "p' \<equiv> (if c then p\<lparr>position := with_y (position p) a,
                                velocity := with_y (velocity p) b\<rparr> else p)"
  shows "vy (position p') = (if c then a else vy (position p))"
    "vx (position p') = vx (position p)" "vz (position p') = vz (position p)"
    "vy (velocity p') = (if c then b else vy (velocity p))"
    "vx (velocity p') = vx (velocity p)" "vz (velocity p') = vz (velocity p)"
    "mass p' = mass p" "padding p' = padding p"
  by (simp_all add: p'_def)

lemma stage_z:
  fixes p :: Particle and c :: bool and a b :: real
  defines "p' \<equiv> (if c then p\<lparr>position := with_z (position p) a,
                                velocity := with_z (velocity p) b\<rparr> else p)"
  shows "vz (position p') = (if c then a else vz (position p))"
    "vx (position p') = vx (position p)" "vy (position p') = vy (position p)"
    "vz (velocity p') = (if c then b else vz (velocity p))"
    "vx (velocity p') = vx (velocity p)" "vy (velocity p') = vy (velocity p)"
    "mass p' = mass p" "padding p' = padding p"
  by (simp_all add: p'_def)

lemma boundaryConditions_axes:
  "vx (position (boundaryConditions q)) =
     (if \<bar>vx (position q)\<bar> > 50 then sgn (vx (position q)) * 50 else vx (position q))"
  "vy (position (boundaryConditions q)) =
     (if \<bar>vy (position q)\<bar> > 50 then sgn (vy (position q)) * 50 else vy (position q))"
  "vz (position (boundaryConditions q)) =
     (if \<bar>vz (position q)\<bar> > 50 then sgn (vz (position q)) * 50 else vz (position q))"
  "vx (velocity (boundaryConditions q)) =
     (if \<bar>vx (position q)\<bar> > 50 then vx (velocity q) * (- 0.8) else vx (velocity q))"
  "vy (velocity (boundaryConditions q)) =
     (if \<bar>vy (position q)\<bar> > 50 then vy (velocity q) * (- 0.8) else vy (velocity q))"
  "vz (velocity (boundaryConditions q)) =
     (if \<bar>vz (position q)\<bar> > 50 then vz (velocity q) * (- 0.8) else vz (velocity q))"
  "mass (boundaryConditions q) = mass q"
  "padding (boundaryConditions q) = padding q"
  unfolding boundaryConditions_def Let_def stage_x stage_y stage_z
  by simp_all

lemma bounceParticle_eq: "bounceParticle q = boundaryConditions q"
  unfolding bounceParticle_def boundaryConditions_def by simp

section \<open>The integration step\<close>

lemma integrateMotion_Some:
  "mass particle \<noteq> 0 \<Longrightarrow>
   integrateMotion params force particle =
     Some (eulerStep (deltaTime params) (SimParams.damping params) force particle)"
  by (simp add: integrateMotion_def vdiv_Some eulerStep_def Let_def)

lemma integrateMotion_frame:
  "integrateMotion params force particle = Some moved \<Longrightarrow>
     mass moved = mass particle \<and> padding moved = padding particle"
  by (auto simp add: integrateMotion_def Let_def split: Option.bind_splits)

lemma moveParticle_Some:
  "mass particle \<noteq> 0 \<Longrightarrow>
   moveParticle dt damp force particle = Some (eulerStep dt damp force particle)"
  by (simp add: moveParticle_def fdiv_def eulerStep_def Let_def smul_def vadd_def)

lemma integrateLoop_result:
  assumes "nat (Simulation.particleCount this) \<le> length ps"
    and "nat (Simulation.particleCount this) \<le> length forces"
    and "\<forall>j. i \<le> j \<and> j < nat (Simulation.particleCount this) \<longrightarrow> mass (ps ! j) \<noteq> 0"
  shows "\<exists>ps'. integrateLoop this dt forces i ps = Some ps' \<and> length ps' = length ps \<and>
           (\<forall>j < length ps. ps' ! j =
              (if i \<le> j \<and> j < nat (Simulation.particleCount this)
               then bounceParticle (eulerStep dt (Simulation.damping this) (forces ! j) (ps ! j))
               else ps ! j))"
  using assms
proof (induction this dt forces i ps rule: integrateLoop.induct)
  case (1 this dt forces i ps)
  let ?n = "nat (Simulation.particleCount this)"
  show ?case
  proof (cases "int i < Simulation.particleCount this")
    case False
    then have "\<not> i < ?n" by simp
    with False show ?thesis by (subst integrateLoop.simps) auto
  next
    case True
    then have lt: "i < ?n" by simp
    with "1.prems" have li: "i < length ps" "i < length forces" "mass (ps ! i) \<noteq> 0"
      by simp_all
    define q where "q = bounceParticle (eulerStep dt (Simulation.damping this) (forces ! i) (ps ! i))"
    have mv: "moveParticle dt (Simulation.damping this) (forces ! i) (ps ! i)
        = Some (eulerStep dt (Simulation.damping this) (forces ! i) (ps ! i))"
      using li by (simp add: moveParticle_Some)
    have step: "integrateLoop this dt forces i ps = integrateLoop this dt forces (Suc i) (ps[i := q])"
      using True li by (subst integrateLoop.simps) (simp add: arrayRead_Some mv q_def)
    have pre: "\<forall>j. Suc i \<le> j \<and> j < ?n \<longrightarrow> mass (ps[i := q] ! j) \<noteq> 0"
      using "1.prems"(3) by simp
    have "\<exists>ps'. integrateLoop this dt forces (Suc i) (ps[i := q]) = Some ps' \<and>
             length ps' = length (ps[i := q]) \<and>
             (\<forall>j < length (ps[i := q]). ps' ! j =
                (if Suc i \<le> j \<and> j < ?n
                 then bounceParticle (eulerStep dt (Simulation.damping this) (forces ! j) (ps[i := q] ! j))
                 else ps[i := q] ! j))"
      using "1.IH" [OF True arrayRead_Some [OF li(1)] arrayRead_Some [OF li(2)] mv, folded q_def]
        "1.prems"(1,2) pre
      by simp
    then obtain ps' where ps': "integrateLoop this dt forces (Suc i) (ps[i := q]) = Some ps'"
      "length ps' = length ps"
      "\<forall>j < length ps. ps' ! j =
                (if Suc i \<le> j \<and> j < ?n
                 then bounceParticle (eulerStep dt (Simulation.damping this) (forces ! j) (ps[i := q] ! j))
                 else ps[i := q] ! j)"
      by auto
    have "\<forall>j < length ps. ps' ! j =
              (if i \<le> j \<and> j < ?n
               then bounceParticle (eulerStep dt (Simulation.damping this) (forces ! j) (ps ! j))
               else ps ! j)"
    proof (intro allI impI)
      fix j assume j: "j < length ps"
      show "ps' ! j = (if i \<le> j \<and> j < ?n
               then bounceParticle (eulerStep dt (Simulation.damping this) (forces ! j) (ps ! j))
               else ps ! j)"
      proof (cases "j = i")
        case True
        with ps'(3) j lt li show ?thesis by (simp add: q_def)
      next
        case False
        with ps'(3) j show ?thesis by (auto simp add: le_less Suc_le_eq)
      qed
    qed
    with step ps' show ?thesis by simp
  qed
qed

text \<open>
  Claim C2. For an invocation index below \<open>particleCount\<close> (and a particle of non-zero
  mass, so that the division is defined) the integration kernel stores the boundary
  handling of exactly the step the specification words: acceleration = force / mass,
  velocity += acceleration * deltaTime, velocity *= damping, position += velocity *
  deltaTime with the damped velocity. The integration loop of the CPU simulation does
  the same to every particle with an index below \<open>particleCount\<close> and leaves the others
  as they were.
\<close>

theorem integration_step_order:
  "(index < SimParams.particleCount params \<and> index < length (particleBuffer st) \<and>
      index < length (forceBuffer st) \<and> mass (particleBuffer st ! index) \<noteq> 0 \<longrightarrow>
      integrateParticles params index st =
        Some (st\<lparr>particleBuffer := (particleBuffer st)[index :=
          boundaryConditions (eulerStep (deltaTime params) (SimParams.damping params)
             (forceBuffer st ! index) (particleBuffer st ! index))]\<rparr>))
    \<and> (nat (Simulation.particleCount this) \<le> length ps \<and>
        nat (Simulation.particleCount this) \<le> length forces \<and>
        (\<forall>j. j < nat (Simulation.particleCount this) \<longrightarrow> mass (ps ! j) \<noteq> 0) \<longrightarrow>
        (\<exists>ps'. integrateLoop this dt forces 0 ps = Some ps' \<and> length ps' = length ps \<and>
           (\<forall>j < length ps. ps' ! j =
              (if j < nat (Simulation.particleCount this)
               then bounceParticle (eulerStep dt (Simulation.damping this) (forces ! j) (ps ! j))
               else ps ! j))))"
proof (intro conjI impI)
  assume "index < SimParams.particleCount params \<and> index < length (particleBuffer st) \<and>
      index < length (forceBuffer st) \<and> mass (particleBuffer st ! index) \<noteq> 0"
  then show "integrateParticles params index st =
        Some (st\<lparr>particleBuffer := (particleBuffer st)[index :=
          boundaryConditions (eulerStep (deltaTime params) (SimParams.damping params)
             (forceBuffer st ! index) (particleBuffer st ! index))]\<rparr>)"
    by (simp add: integrateParticles_def arrayRead_Some integrateMotion_Some)
next
  assume a: "nat (Simulation.particleCount this) \<le> length ps \<and>
        nat (Simulation.particleCount this) \<le> length forces \<and>
        (\<forall>j. j < nat (Simulation.particleCount this) \<longrightarrow> mass (ps ! j) \<noteq> 0)"
  then have "\<forall>j. 0 \<le> j \<and> j < nat (Simulation.particleCount this) \<longrightarrow> mass (ps ! j) \<noteq> 0"
    by simp
  with a show "\<exists>ps'. integrateLoop this dt forces 0 ps = Some ps' \<and> length ps' = length ps \<and>
           (\<forall>j < length ps. ps' ! j =
              (if j < nat (Simulation.particleCount this)
               then bounceParticle (eulerStep dt (Simulation.damping this) (forces ! j) (ps ! j))
               else ps ! j))"
    using integrateLoop_result [of this ps forces 0 dt] by simp
qed

theorem integration_step_order_witness:
  "(0::nat) < SimParams.particleCount \<lparr>SimParams.particleCount = 1, deltaTime = 1, SimParams.gravityStrength = 1, SimParams.damping = 1\<rparr>
   \<and> mass \<lparr>position = Vec3 0 0 0, mass = 2, velocity = Vec3 0 0 0, padding = 0\<rparr> \<noteq> 0
   \<and> integrateParticles \<lparr>SimParams.particleCount = 1, deltaTime = 1, SimParams.gravityStrength = 1, SimParams.damping = 1\<rparr> 0
       \<lparr>particleBuffer = [\<lparr>position = Vec3 0 0 0, mass = 2, velocity = Vec3 0 0 0, padding = 0\<rparr>],
        forceBuffer = [Vec3 2 0 0]\<rparr>
     = Some \<lparr>particleBuffer = [\<lparr>position = Vec3 1 0 0, mass = 2, velocity = Vec3 1 0 0, padding = 0\<rparr>],
             forceBuffer = [Vec3 2 0 0]\<rparr>
   \<and> (\<exists>ps'. integrateLoop \<lparr>Simulation.particleCount = 1, Simulation.gravityStrength = 1, timeScale = 1,
           Simulation.damping = 1,
           particles = [\<lparr>position = Vec3 0 0 0, mass = 2, velocity = Vec3 0 0 0, padding = 0\<rparr>]\<rparr>
         1 [Vec3 2 0 0] 0 [\<lparr>position = Vec3 0 0 0, mass = 2, velocity = Vec3 0 0 0, padding = 0\<rparr>]
       = Some ps' \<and> length ps' = 1 \<and>
       ps' ! 0 = \<lparr>position = Vec3 1 0 0, mass = 2, velocity = Vec3 1 0 0, padding = 0\<rparr>)"
  using integration_step_order [where index = 0
      and params = "\<lparr>SimParams.particleCount = 1, deltaTime = 1, SimParams.gravityStrength = 1, SimParams.damping = 1\<rparr>"
      and st = "\<lparr>particleBuffer = [\<lparr>position = Vec3 0 0 0, mass = 2, velocity = Vec3 0 0 0, padding = 0\<rparr>],
                forceBuffer = [Vec3 2 0 0]\<rparr>"
      and this = "\<lparr>Simulation.particleCount = 1, Simulation.gravityStrength = 1, timeScale = 1,
         Simulation.damping = 1,
         particles = [\<lparr>position = Vec3 0 0 0, mass = 2, velocity = Vec3 0 0 0, padding = 0\<rparr>]\<rparr>"
      and ps = "[\<lparr>position = Vec3 0 0 0, mass = 2, velocity = Vec3 0 0 0, padding = 0\<rparr>]"
      and forces = "[Vec3 2 0 0]" and dt = 1]
  by (simp add: eulerStep_def boundaryConditions_def bounceParticle_def Let_def vadd_def smul_def)

text \<open>
  Claim C3. After the position update, each axis is tested on its own: where the
  absolute value of the coordinate exceeds 50, the coordinate becomes \<open>sign * 50\<close> and
  the velocity component on that axis is multiplied by \<open>-0.8\<close>; otherwise both are left
  as they were, whatever happens on the other two axes. A particle whose x-coordinate
  is 51 after the position update ends with x-coordinate 50 and with its x-velocity
  multiplied by \<open>-0.8\<close>. The CPU loop applies the same tests, and the kernel stores the
  result of the tests applied to the moved particle.
\<close>
theorem boundary_reflection:
  "vx (position (boundaryConditions q)) =
     (if \<bar>vx (position q)\<bar> > 50 then sgn (vx (position q)) * 50 else vx (position q))
   \<and> vx (velocity (boundaryConditions q)) =
     (if \<bar>vx (position q)\<bar> > 50 then vx (velocity q) * (- 0.8) else vx (velocity q))
   \<and> vy (position (boundaryConditions q)) =
     (if \<bar>vy (position q)\<bar> > 50 then sgn (vy (position q)) * 50 else vy (position q))
   \<and> vy (velocity (boundaryConditions q)) =
     (if \<bar>vy (position q)\<bar> > 50 then vy (velocity q) * (- 0.8) else vy (velocity q))
   \<and> vz (position (boundaryConditions q)) =
     (if \<bar>vz (position q)\<bar> > 50 then sgn (vz (position q)) * 50 else vz (position q))
   \<and> vz (velocity (boundaryConditions q)) =
     (if \<bar>vz (position q)\<bar> > 50 then vz (velocity q) * (- 0.8) else vz (velocity q))
   \<and> bounceParticle q = boundaryConditions q
   \<and> (vx (position q) = 51 \<longrightarrow>
        vx (position (boundaryConditions q)) = 50 \<and>
        vx (velocity (boundaryConditions q)) = - 0.8 * vx (velocity q))
   \<and> (index < SimParams.particleCount params \<and>
        arrayRead (particleBuffer st) index = Some particle \<and>
        arrayRead (forceBuffer st) index = Some force \<and>
        integrateMotion params force particle = Some q \<longrightarrow>
        integrateParticles params index st =
          Some (st\<lparr>particleBuffer := (particleBuffer st)[index := boundaryConditions q]\<rparr>))"
proof -
  have "vx (position q) = 51 \<longrightarrow>
        vx (position (boundaryConditions q)) = 50 \<and>
        vx (velocity (boundaryConditions q)) = - 0.8 * vx (velocity q)"
    by (simp add: boundaryConditions_axes)
  moreover have "index < SimParams.particleCount params \<and>
        arrayRead (particleBuffer st) index = Some particle \<and>
        arrayRead (forceBuffer st) index = Some force \<and>
        integrateMotion params force particle = Some q \<longrightarrow>
        integrateParticles params index st =
          Some (st\<lparr>particleBuffer := (particleBuffer st)[index := boundaryConditions q]\<rparr>)"
    by (simp add: integrateParticles_def)
  ultimately show ?thesis
    using boundaryConditions_axes [of q] bounceParticle_eq [of q] by blast
qed

theorem boundary_reflection_witness:
  "vx (position \<lparr>position = Vec3 51 7 (-60), mass = 1, velocity = Vec3 3 4 5, padding = 0\<rparr>) = 51
   \<and> vx (position (boundaryConditions
          \<lparr>position = Vec3 51 7 (-60), mass = 1, velocity = Vec3 3 4 5, padding = 0\<rparr>)) = 50
   \<and> vx (velocity (boundaryConditions
          \<lparr>position = Vec3 51 7 (-60), mass = 1, velocity = Vec3 3 4 5, padding = 0\<rparr>)) = - 0.8 * 3"
  using boundary_reflection
    [where q = "\<lparr>position = Vec3 51 7 (-60), mass = 1, velocity = Vec3 3 4 5, padding = 0\<rparr>"]
  by simp

section \<open>What the kernels write\<close>

lemma forceContribution_defined:
  "(\<exists>f. forceContribution params particle other = Some f) \<longleftrightarrow>
     position other \<noteq> position particle"
  by (auto simp add: forceContribution_def Let_def fdiv_def normalize_def vdiv_def
        dot_self_zero vlength_zero vsub_zero split: Option.bind_splits)

lemma forceLoop_total:
  assumes "SimParams.particleCount params \<le> length ps"
    and "\<forall>j. i \<le> j \<and> j < SimParams.particleCount params \<and> j \<noteq> index \<longrightarrow>
           position (ps ! j) \<noteq> position particle"
  shows "\<exists>f. forceLoop params ps index particle i acc = Some f"
  using assms
proof (induction params ps index particle i acc rule: forceLoop.induct)
  case (1 params particlesIn index particle i totalForce)
  show ?case
  proof (cases "i < SimParams.particleCount params")
    case False
    then show ?thesis by (subst forceLoop.simps) simp
  next
    case True
    show ?thesis
    proof (cases "i = index")
      case True
      with \<open>i < SimParams.particleCount params\<close> 1 show ?thesis
        by (subst forceLoop.simps) simp
    next
      case False
      from True "1.prems" have len: "i < length particlesIn" by simp
      from True False "1.prems"
      have ne: "position (particlesIn ! i) \<noteq> position particle" by simp
      obtain f where f: "forceContribution params particle (particlesIn ! i) = Some f"
        using ne forceContribution_defined by blast
      from 1 True False len f show ?thesis
        by (subst forceLoop.simps) (simp add: arrayRead_Some)
    qed
  qed
qed

text \<open>
  Claim C9. An invocation of either kernel with an index at or beyond \<open>particleCount\<close>
  changes nothing. An invocation of the integration kernel leaves the force buffer,
  every other particle, and the mass and padding of every particle as they were. An
  invocation of the force kernel leaves the particle buffer as it was and writes at
  most its own force slot. The integration kernel produces a result for every
  in-range index whose particle has non-zero mass, the force kernel for every in-range
  index whose particle coincides with no other.
\<close>
theorem kernel_frame_conditions:
  "(index \<ge> SimParams.particleCount params \<longrightarrow>
      integrateParticles params index st = Some st \<and> computeForces params index st = Some st)
   \<and> (integrateParticles params index st = Some st' \<longrightarrow>
        forceBuffer st' = forceBuffer st \<and>
        length (particleBuffer st') = length (particleBuffer st) \<and>
        (\<forall>j. j \<noteq> index \<longrightarrow> particleBuffer st' ! j = particleBuffer st ! j) \<and>
        map mass (particleBuffer st') = map mass (particleBuffer st) \<and>
        map padding (particleBuffer st') = map padding (particleBuffer st))
   \<and> (computeForces params index st = Some st'' \<longrightarrow>
        particleBuffer st'' = particleBuffer st \<and>
        length (forceBuffer st'') = length (forceBuffer st) \<and>
        (\<forall>j. j \<noteq> index \<longrightarrow> forceBuffer st'' ! j = forceBuffer st ! j))
   \<and> (index < SimParams.particleCount params \<and> index < length (particleBuffer st) \<and>
       index < length (forceBuffer st) \<and> mass (particleBuffer st ! index) \<noteq> 0 \<longrightarrow>
        (\<exists>s. integrateParticles params index st = Some s))
   \<and> (index < SimParams.particleCount params \<and>
       SimParams.particleCount params \<le> length (particleBuffer st) \<and>
       (\<forall>j. j < SimParams.particleCount params \<and> j \<noteq> index \<longrightarrow>
            position (particleBuffer st ! j) \<noteq> position (particleBuffer st ! index)) \<longrightarrow>
        (\<exists>s. computeForces params index st = Some s))"
proof (intro conjI impI)
  assume "index \<ge> SimParams.particleCount params"
  then show "integrateParticles params index st = Some st"
    by (simp add: integrateParticles_def)
next
  assume "index \<ge> SimParams.particleCount params"
  then show "computeForces params index st = Some st"
    by (simp add: computeForces_def)
next
  assume a: "integrateParticles params index st = Some st'"
  show "forceBuffer st' = forceBuffer st"
    using a by (auto simp add: integrateParticles_def split: if_splits Option.bind_splits)
  show "length (particleBuffer st') = length (particleBuffer st)"
    using a by (auto simp add: integrateParticles_def split: if_splits Option.bind_splits)
  show "\<forall>j. j \<noteq> index \<longrightarrow> particleBuffer st' ! j = particleBuffer st ! j"
    using a by (auto simp add: integrateParticles_def split: if_splits Option.bind_splits)
  show "map mass (particleBuffer st') = map mass (particleBuffer st)"
    using a
    by (auto simp add: integrateParticles_def arrayRead_eq_Some map_update boundaryConditions_axes
          list_update_same_conv dest!: integrateMotion_frame split: if_splits Option.bind_splits)
  show "map padding (particleBuffer st') = map padding (particleBuffer st)"
    using a
    by (auto simp add: integrateParticles_def arrayRead_eq_Some map_update boundaryConditions_axes
          list_update_same_conv dest!: integrateMotion_frame split: if_splits Option.bind_splits)
next
  assume a: "computeForces params index st = Some st''"
  show "particleBuffer st'' = particleBuffer st"
    using a by (auto simp add: computeForces_def split: if_splits Option.bind_splits)
  show "length (forceBuffer st'') = length (forceBuffer st)"
    using a by (auto simp add: computeForces_def split: if_splits Option.bind_splits)
  show "\<forall>j. j \<noteq> index \<longrightarrow> forceBuffer st'' ! j = forceBuffer st ! j"
    using a by (auto simp add: computeForces_def split: if_splits Option.bind_splits)
next
  assume "index < SimParams.particleCount params \<and> index < length (particleBuffer st) \<and>
       index < length (forceBuffer st) \<and> mass (particleBuffer st ! index) \<noteq> 0"
  then show "\<exists>s. integrateParticles params index st = Some s"
    by (simp add: integrateParticles_def arrayRead_Some integrateMotion_Some)
next
  assume a: "index < SimParams.particleCount params \<and>
       SimParams.particleCount params \<le> length (particleBuffer st) \<and>
       (\<forall>j. j < SimParams.particleCount params \<and> j \<noteq> index \<longrightarrow>
            position (particleBuffer st ! j) \<noteq> position (particleBuffer st ! index))"
  then obtain f where
    "forceLoop params (particleBuffer st) index (particleBuffer st ! index) 0 (Vec3 0 0 0) = Some f"
    using forceLoop_total [of params "particleBuffer st" 0 index "particleBuffer st ! index" "Vec3 0 0 0"]
    by auto
  with a show "\<exists>s. computeForces params index st = Some s"
    by (simp add: computeForces_def arrayRead_Some)
qed

theorem kernel_frame_conditions_witness:
  "integrateParticles \<lparr>SimParams.particleCount = 1, deltaTime = 1, SimParams.gravityStrength = 1, SimParams.damping = 1\<rparr> 3
       \<lparr>particleBuffer = [\<lparr>position = Vec3 0 0 0, mass = 2, velocity = Vec3 0 0 0, padding = 0\<rparr>],
        forceBuffer = [Vec3 2 0 0]\<rparr>
     = Some \<lparr>particleBuffer = [\<lparr>position = Vec3 0 0 0, mass = 2, velocity = Vec3 0 0 0, padding = 0\<rparr>],
        forceBuffer = [Vec3 2 0 0]\<rparr>
   \<and> computeForces \<lparr>SimParams.particleCount = 1, deltaTime = 1, SimParams.gravityStrength = 1, SimParams.damping = 1\<rparr> 3
       \<lparr>particleBuffer = [\<lparr>position = Vec3 0 0 0, mass = 2, velocity = Vec3 0 0 0, padding = 0\<rparr>],
        forceBuffer = [Vec3 2 0 0]\<rparr>
     = Some \<lparr>particleBuffer = [\<lparr>position = Vec3 0 0 0, mass = 2, velocity = Vec3 0 0 0, padding = 0\<rparr>],
        forceBuffer = [Vec3 2 0 0]\<rparr>
   \<and> integrateParticles \<lparr>SimParams.particleCount = 1, deltaTime = 1, SimParams.gravityStrength = 1, SimParams.damping = 1\<rparr> 0
       \<lparr>particleBuffer = [\<lparr>position = Vec3 0 0 0, mass = 2, velocity = Vec3 0 0 0, padding = 0\<rparr>],
        forceBuffer = [Vec3 2 0 0]\<rparr>
     = Some \<lparr>particleBuffer = [\<lparr>position = Vec3 1 0 0, mass = 2, velocity = Vec3 1 0 0, padding = 0\<rparr>],
             forceBuffer = [Vec3 2 0 0]\<rparr>
   \<and> computeForces \<lparr>SimParams.particleCount = 1, deltaTime = 1, SimParams.gravityStrength = 1, SimParams.damping = 1\<rparr> 0
       \<lparr>particleBuffer = [\<lparr>position = Vec3 0 0 0, mass = 2, velocity = Vec3 0 0 0, padding = 0\<rparr>],
        forceBuffer = [Vec3 2 0 0]\<rparr>
     = Some \<lparr>particleBuffer = [\<lparr>position = Vec3 0 0 0, mass = 2, velocity = Vec3 0 0 0, padding = 0\<rparr>],
             forceBuffer = [Vec3 0 0 0]\<rparr>
   \<and> map mass [\<lparr>position = Vec3 1 0 0, mass = 2, velocity = Vec3 1 0 0, padding = 0\<rparr>]
     = map mass [\<lparr>position = Vec3 0 0 0, mass = 2, velocity = Vec3 0 0 0, padding = 0\<rparr>]"
proof -
  let ?P = "\<lparr>SimParams.particleCount = 1, deltaTime = 1, SimParams.gravityStrength = 1, SimParams.damping = 1\<rparr>"
  let ?p = "\<lparr>position = Vec3 0 0 0, mass = 2, velocity = Vec3 0 0 0, padding = 0\<rparr>"
  let ?S = "\<lparr>particleBuffer = [?p], forceBuffer = [Vec3 2 0 0]\<rparr>"
  let ?S1 = "\<lparr>particleBuffer = [\<lparr>position = Vec3 1 0 0, mass = 2, velocity = Vec3 1 0 0, padding = 0\<rparr>],
             forceBuffer = [Vec3 2 0 0]\<rparr>"
  let ?S2 = "\<lparr>particleBuffer = [?p], forceBuffer = [Vec3 0 0 0]\<rparr>"
  have i: "integrateParticles ?P 0 ?S = Some ?S1"
    by (simp add: integrateParticles_def arrayRead_def integrateMotion_def vdiv_def fdiv_def
          boundaryConditions_def Let_def vadd_def smul_def)
  have c: "computeForces ?P 0 ?S = Some ?S2"
    by (simp add: computeForces_def arrayRead_def forceLoop.simps [of _ _ _ _ 0]
          forceLoop.simps [of _ _ _ _ "Suc 0"])
  from kernel_frame_conditions [where index = 3 and params = ?P and st = ?S and st' = ?S and st'' = ?S]
    kernel_frame_conditions [where index = 0 and params = ?P and st = ?S and st' = ?S1 and st'' = ?S2]
    i c
  show ?thesis by simp
qed

section \<open>The force law of the two implementations\<close>

text \<open>
  What the loop body of the force kernel adds, for particles that do not coincide: the
  vector of magnitude \<open>gravityStrength * m_i * m_j / |r|\<^sup>2\<close> along \<open>r / |r|\<close>, with no
  softening term.
\<close>

lemma forceContribution_value:
  assumes "position other \<noteq> position particle"
  shows "forceContribution params particle other =
     Some (let r = vsub (position other) (position particle)
           in smul (SimParams.gravityStrength params * mass particle * mass other / dot r r)
                   (Vec3 (vx r / vlength r) (vy r / vlength r) (vz r / vlength r)))"
proof -
  have "vsub (position other) (position particle) \<noteq> Vec3 0 0 0"
    using assms by (simp add: vsub_zero)
  then show ?thesis
    by (simp add: forceContribution_def Let_def fdiv_def normalize_def vdiv_def
          dot_self_zero vlength_zero)
qed

lemma sqrt_sq: "0 \<le> y \<Longrightarrow> y * y = x \<Longrightarrow> sqrt x = y"
  using real_sqrt_unique [of y x] by (simp add: power2_eq_square)

text \<open>
  Claim C1, at its failing inputs. For two particles of mass 1 at the same position the
  loop body of the force kernel has no finite value: it divides by the unsoftened
  squared distance, which is zero. For two particles of mass 1 at distance 1 it adds a
  force of magnitude exactly 1, where the softened law of the specification gives
  \<open>10000 / 10001\<close>. The loop body of the CPU simulation, which does add its softening term
  to the squared distance, gives the zero vector for the coincident pair.
\<close>

theorem force_kernel_not_softened:
  "forceContribution \<lparr>SimParams.particleCount = 2, deltaTime = 0.016, SimParams.gravityStrength = 1, SimParams.damping = 1\<rparr>
      \<lparr>position = Vec3 0 0 0, mass = 1, velocity = Vec3 0 0 0, padding = 0\<rparr>
      \<lparr>position = Vec3 0 0 0, mass = 1, velocity = Vec3 0 0 0, padding = 0\<rparr> = None
   \<and> forceContribution \<lparr>SimParams.particleCount = 2, deltaTime = 0.016, SimParams.gravityStrength = 1, SimParams.damping = 1\<rparr>
      \<lparr>position = Vec3 0 0 0, mass = 1, velocity = Vec3 0 0 0, padding = 0\<rparr>
      \<lparr>position = Vec3 1 0 0, mass = 1, velocity = Vec3 0 0 0, padding = 0\<rparr> = Some (Vec3 1 0 0)
   \<and> specForceMagnitude 1
      \<lparr>position = Vec3 0 0 0, mass = 1, velocity = Vec3 0 0 0, padding = 0\<rparr>
      \<lparr>position = Vec3 1 0 0, mass = 1, velocity = Vec3 0 0 0, padding = 0\<rparr> = 10000 / 10001
   \<and> vlength (Vec3 1 0 0) = 1
   \<and> pairForce 1
      \<lparr>position = Vec3 0 0 0, mass = 1, velocity = Vec3 0 0 0, padding = 0\<rparr>
      \<lparr>position = Vec3 0 0 0, mass = 1, velocity = Vec3 0 0 0, padding = 0\<rparr> = Some (Vec3 0 0 0)"
  by (simp add: forceContribution_def specForceMagnitude_def pairForce_def Let_def fdiv_def
        normalize_def vdiv_def vlength_def dot_def vsub_def smul_def)

lemma sqrt_9_1600: "sqrt (9 / 1600) = 3 / 40"
  by (rule sqrt_sq) simp_all

lemma sqrt_1_64: "sqrt (1 / 64) = 1 / 8"
  by (rule sqrt_sq) simp_all

text \<open>
  Claim C5, at its failing input. For two particles of mass 1 at \<open>(0, 0, 0)\<close> and
  \<open>(3/40, 0, 0)\<close> and gravity strength 1, the force kernel stores the force
  \<open>(1600/9, 0, 0)\<close> for particle 0, and the force pass of the CPU simulation computes
  \<open>(192/5, 0, 0)\<close> for it.
\<close>

theorem cpu_and_gpu_forces_differ:
  "computeForces \<lparr>SimParams.particleCount = 2, deltaTime = 0.016, SimParams.gravityStrength = 1, SimParams.damping = 1\<rparr> 0
      \<lparr>particleBuffer = [\<lparr>position = Vec3 0 0 0, mass = 1, velocity = Vec3 0 0 0, padding = 0\<rparr>,
                         \<lparr>position = Vec3 (3 / 40) 0 0, mass = 1, velocity = Vec3 0 0 0, padding = 0\<rparr>],
       forceBuffer = [Vec3 0 0 0, Vec3 0 0 0]\<rparr>
    = Some \<lparr>particleBuffer = [\<lparr>position = Vec3 0 0 0, mass = 1, velocity = Vec3 0 0 0, padding = 0\<rparr>,
                         \<lparr>position = Vec3 (3 / 40) 0 0, mass = 1, velocity = Vec3 0 0 0, padding = 0\<rparr>],
            forceBuffer = [Vec3 (1600 / 9) 0 0, Vec3 0 0 0]\<rparr>
   \<and> forcesLoop \<lparr>Simulation.particleCount = 2, Simulation.gravityStrength = 1, timeScale = 1, Simulation.damping = 1,
         particles = [\<lparr>position = Vec3 0 0 0, mass = 1, velocity = Vec3 0 0 0, padding = 0\<rparr>,
                      \<lparr>position = Vec3 (3 / 40) 0 0, mass = 1, velocity = Vec3 0 0 0, padding = 0\<rparr>]\<rparr> 0 []
    = Some [Vec3 (192 / 5) 0 0, Vec3 (- (192 / 5)) 0 0]"
proof -
  let ?a = "\<lparr>position = Vec3 0 0 0, mass = 1, velocity = Vec3 0 0 0, padding = 0\<rparr>"
  let ?b = "\<lparr>position = Vec3 (3 / 40) 0 0, mass = 1, velocity = Vec3 0 0 0, padding = 0\<rparr>"
  let ?P = "\<lparr>SimParams.particleCount = 2, deltaTime = 0.016, SimParams.gravityStrength = 1, SimParams.damping = 1\<rparr>"
  let ?sim = "\<lparr>Simulation.particleCount = 2, Simulation.gravityStrength = 1, timeScale = 1, Simulation.damping = 1,
         particles = [?a, ?b]\<rparr>"
  have fc: "forceContribution P ?a ?b = Some (Vec3 (1600 / 9) 0 0)"
    if "SimParams.gravityStrength P = 1" for P
    using that
    by (simp add: forceContribution_def Let_def fdiv_def normalize_def vdiv_def vlength_def
          dot_def vsub_def smul_def sqrt_9_1600)
  have fl: "forceLoop P [?a, ?b] 0 ?a 0 (Vec3 0 0 0) = Some (Vec3 (1600 / 9) 0 0)"
    if "SimParams.gravityStrength P = 1" "SimParams.particleCount P = 2" for P
    using that
    by (simp add: forceLoop.simps [of _ _ _ _ 0] forceLoop.simps [of _ _ _ _ "Suc 0"]
          forceLoop.simps [of _ _ _ _ "Suc (Suc 0)"] arrayRead_def fc vadd_def)
  have g: "computeForces P 0 \<lparr>particleBuffer = [?a, ?b], forceBuffer = [Vec3 0 0 0, Vec3 0 0 0]\<rparr>
    = Some \<lparr>particleBuffer = [?a, ?b], forceBuffer = [Vec3 (1600 / 9) 0 0, Vec3 0 0 0]\<rparr>"
    if "SimParams.gravityStrength P = 1" "SimParams.particleCount P = 2" for P
    using that by (simp add: computeForces_def arrayRead_def fl)
  have pab: "pairForce 1 ?a ?b = Some (Vec3 (192 / 5) 0 0)"
    by (simp add: pairForce_def Let_def fdiv_def sqrt_1_64)
  have pba: "pairForce 1 ?b ?a = Some (Vec3 (- (192 / 5)) 0 0)"
    by (simp add: pairForce_def Let_def fdiv_def sqrt_1_64)
  have l0: "pairLoop sim 0 ?a 0 (Vec3 0 0 0) = Some (Vec3 (192 / 5) 0 0)"
    if "Simulation.particleCount sim = 2" "Simulation.gravityStrength sim = 1"
       "particles sim = [?a, ?b]" for sim
    using that
    by (simp add: pairLoop.simps [of _ _ _ 0] pairLoop.simps [of _ _ _ "Suc 0"]
          pairLoop.simps [of _ _ _ "Suc (Suc 0)"] arrayRead_def pab vadd_def)
  have l1: "pairLoop sim (Suc 0) ?b 0 (Vec3 0 0 0) = Some (Vec3 (- (192 / 5)) 0 0)"
    if "Simulation.particleCount sim = 2" "Simulation.gravityStrength sim = 1"
       "particles sim = [?a, ?b]" for sim
    using that
    by (simp add: pairLoop.simps [of _ _ _ 0] pairLoop.simps [of _ _ _ "Suc 0"]
          pairLoop.simps [of _ _ _ "Suc (Suc 0)"] arrayRead_def pba vadd_def)
  have c: "forcesLoop sim 0 [] = Some [Vec3 (192 / 5) 0 0, Vec3 (- (192 / 5)) 0 0]"
    if "Simulation.particleCount sim = 2" "Simulation.gravityStrength sim = 1"
       "particles sim = [?a, ?b]" for sim
    using that
    by (simp add: forcesLoop.simps [of _ 0] forcesLoop.simps [of _ "Suc 0"]
          forcesLoop.simps [of _ "Suc (Suc 0)"] arrayRead_def l0 l1)
  show ?thesis by (simp add: g c)
qed

section \<open>The orientation matrix\<close>

lemma nth9 [simp]:
  "[a0, a1, a2, a3, a4, a5, a6, a7, a8] ! 0 = a0"
  "[a0, a1, a2, a3, a4, a5, a6, a7, a8] ! 1 = a1"
  "[a0, a1, a2, a3, a4, a5, a6, a7, a8] ! 2 = a2"
  "[a0, a1, a2, a3, a4, a5, a6, a7, a8] ! 3 = a3"
  "[a0, a1, a2, a3, a4, a5, a6, a7, a8] ! 4 = a4"
  "[a0, a1, a2, a3, a4, a5, a6, a7, a8] ! 5 = a5"
  "[a0, a1, a2, a3, a4, a5, a6, a7, a8] ! 6 = a6"
  "[a0, a1, a2, a3, a4, a5, a6, a7, a8] ! 7 = a7"
  "[a0, a1, a2, a3, a4, a5, a6, a7, a8] ! 8 = a8"
  by simp_all

lemma column_dot:
  fixes a0 a1 a2 a3 a4 a5 a6 a7 a8 u0 u1 u2 w0 w1 w2 :: real
  shows "(a0 * u0 + a1 * u1 + a2 * u2) * (a0 * w0 + a1 * w1 + a2 * w2)
       + (a3 * u0 + a4 * u1 + a5 * u2) * (a3 * w0 + a4 * w1 + a5 * w2)
       + (a6 * u0 + a7 * u1 + a8 * u2) * (a6 * w0 + a7 * w1 + a8 * w2)
       = u0 * w0 * (a0 * a0 + a3 * a3 + a6 * a6)
       + u1 * w1 * (a1 * a1 + a4 * a4 + a7 * a7)
       + u2 * w2 * (a2 * a2 + a5 * a5 + a8 * a8)
       + (u0 * w1 + u1 * w0) * (a0 * a1 + a3 * a4 + a6 * a7)
       + (u0 * w2 + u2 * w0) * (a0 * a2 + a3 * a5 + a6 * a8)
       + (u1 * w2 + u2 * w1) * (a1 * a2 + a4 * a5 + a7 * a8)"
  by algebra

lemma orthonormal_iff:
  "orthonormal m \<longleftrightarrow>
     m ! 0 * m ! 0 + m ! 3 * m ! 3 + m ! 6 * m ! 6 = 1 \<and>
     m ! 1 * m ! 1 + m ! 4 * m ! 4 + m ! 7 * m ! 7 = 1 \<and>
     m ! 2 * m ! 2 + m ! 5 * m ! 5 + m ! 8 * m ! 8 = 1 \<and>
     m ! 0 * m ! 1 + m ! 3 * m ! 4 + m ! 6 * m ! 7 = 0 \<and>
     m ! 0 * m ! 2 + m ! 3 * m ! 5 + m ! 6 * m ! 8 = 0 \<and>
     m ! 1 * m ! 2 + m ! 4 * m ! 5 + m ! 7 * m ! 8 = 0"
  by (simp add: orthonormal_def column_def dot_def)

lemma multiply3x3_orthonormal:
  assumes a: "orthonormal a" and b: "orthonormal b"
  shows "orthonormal (multiply3x3 a b)"
proof -
  have A: "a ! 0 * a ! 0 + a ! 3 * a ! 3 + a ! 6 * a ! 6 = 1"
          "a ! 1 * a ! 1 + a ! 4 * a ! 4 + a ! 7 * a ! 7 = 1"
          "a ! 2 * a ! 2 + a ! 5 * a ! 5 + a ! 8 * a ! 8 = 1"
          "a ! 0 * a ! 1 + a ! 3 * a ! 4 + a ! 6 * a ! 7 = 0"
          "a ! 0 * a ! 2 + a ! 3 * a ! 5 + a ! 6 * a ! 8 = 0"
          "a ! 1 * a ! 2 + a ! 4 * a ! 5 + a ! 7 * a ! 8 = 0"
    using a unfolding orthonormal_iff by blast+
  have B: "b ! 0 * b ! 0 + b ! 3 * b ! 3 + b ! 6 * b ! 6 = 1"
          "b ! 1 * b ! 1 + b ! 4 * b ! 4 + b ! 7 * b ! 7 = 1"
          "b ! 2 * b ! 2 + b ! 5 * b ! 5 + b ! 8 * b ! 8 = 1"
          "b ! 0 * b ! 1 + b ! 3 * b ! 4 + b ! 6 * b ! 7 = 0"
          "b ! 0 * b ! 2 + b ! 3 * b ! 5 + b ! 6 * b ! 8 = 0"
          "b ! 1 * b ! 2 + b ! 4 * b ! 5 + b ! 7 * b ! 8 = 0"
    using b unfolding orthonormal_iff by blast+
  show ?thesis
    unfolding orthonormal_iff multiply3x3_def nth9 column_dot A
    using B by simp
qed


lemma det3_multiply3x3: "det3 (multiply3x3 a b) = det3 a * det3 b"
  unfolding det3_def multiply3x3_def nth9 by algebra

lemma length_multiply3x3: "length (multiply3x3 a b) = 9"
  by (simp add: multiply3x3_def)

lemma rodrigues_orthonormal:
  assumes u: "x * x + y * y + z * z = 1"
  shows "orthonormal (rodrigues x y z angle)"
proof -
  have t: "cos angle * cos angle + sin angle * sin angle = 1"
    using sin_cos_squared_add2 [of angle] by (simp add: power2_eq_square)
  define c where "c = cos angle"
  define s where "s = sin angle"
  have t': "c * c + s * s = 1" using t by (simp add: c_def s_def)
  have 1: "(c + x * x * (1 - c)) * (c + x * x * (1 - c)) + (y * x * (1 - c) + z * s) * (y * x * (1 - c) + z * s)
         + (z * x * (1 - c) - y * s) * (z * x * (1 - c) - y * s) = 1"
    using u t' by algebra
  have 2: "(x * y * (1 - c) - z * s) * (x * y * (1 - c) - z * s) + (c + y * y * (1 - c)) * (c + y * y * (1 - c))
         + (z * y * (1 - c) + x * s) * (z * y * (1 - c) + x * s) = 1"
    using u t' by algebra
  have 3: "(x * z * (1 - c) + y * s) * (x * z * (1 - c) + y * s) + (y * z * (1 - c) - x * s) * (y * z * (1 - c) - x * s)
         + (c + z * z * (1 - c)) * (c + z * z * (1 - c)) = 1"
    using u t' by algebra
  have 4: "(c + x * x * (1 - c)) * (x * y * (1 - c) - z * s) + (y * x * (1 - c) + z * s) * (c + y * y * (1 - c))
         + (z * x * (1 - c) - y * s) * (z * y * (1 - c) + x * s) = 0"
    using u t' by algebra
  have 5: "(c + x * x * (1 - c)) * (x * z * (1 - c) + y * s) + (y * x * (1 - c) + z * s) * (y * z * (1 - c) - x * s)
         + (z * x * (1 - c) - y * s) * (c + z * z * (1 - c)) = 0"
    using u t' by algebra
  have 6: "(x * y * (1 - c) - z * s) * (x * z * (1 - c) + y * s) + (c + y * y * (1 - c)) * (y * z * (1 - c) - x * s)
         + (z * y * (1 - c) + x * s) * (c + z * z * (1 - c)) = 0"
    using u t' by algebra
  show ?thesis
    unfolding orthonormal_iff rodrigues_def Let_def nth9 c_def [symmetric] s_def [symmetric]
    using 1 2 3 4 5 6 by blast
qed

lemma rodrigues_det:
  assumes u: "x * x + y * y + z * z = 1"
  shows "det3 (rodrigues x y z angle) = 1"
proof -
  have t: "cos angle * cos angle + sin angle * sin angle = 1"
    using sin_cos_squared_add2 [of angle] by (simp add: power2_eq_square)
  define c where "c = cos angle"
  define s where "s = sin angle"
  have t': "c * c + s * s = 1" using t by (simp add: c_def s_def)
  have "(c + x * x * (1 - c)) * ((c + y * y * (1 - c)) * (c + z * z * (1 - c)) - (y * z * (1 - c) - x * s) * (z * y * (1 - c) + x * s))
      - (x * y * (1 - c) - z * s) * ((y * x * (1 - c) + z * s) * (c + z * z * (1 - c)) - (y * z * (1 - c) - x * s) * (z * x * (1 - c) - y * s))
      + (x * z * (1 - c) + y * s) * ((y * x * (1 - c) + z * s) * (z * y * (1 - c) + x * s) - (c + y * y * (1 - c)) * (z * x * (1 - c) - y * s)) = 1"
    using u t' by algebra
  then show ?thesis
    unfolding det3_def rodrigues_def Let_def nth9 c_def [symmetric] s_def [symmetric] .
qed

lemma updateCameraPosition_fields [simp]:
  "rotMatrix (updateCameraPosition s) = rotMatrix s"
  "distance (updateCameraPosition s) = distance s"
  "targetDistance (updateCameraPosition s) = targetDistance s"
  "smoothing (updateCameraPosition s) = smoothing s"
  by (simp_all add: updateCameraPosition_def Let_def)

lemma identity_proper: "properRotation [1, 0, 0, 0, 1, 0, 0, 0, 1]"
  unfolding properRotation_def orthonormal_iff det3_def nth9 by simp

lemma rotateAroundAxis_proper:
  assumes "properRotation (rotMatrix s)" and "x * x + y * y + z * z = 1"
  shows "properRotation (rotMatrix (rotateAroundAxis x y z angle s))"
  using assms
  by (simp add: properRotation_def rotateAroundAxis_def length_multiply3x3
        multiply3x3_orthonormal rodrigues_orthonormal det3_multiply3x3 rodrigues_det)

lemma rotateAroundCameraUp_proper:
  assumes "properRotation (rotMatrix s)"
  shows "properRotation (rotMatrix (rotateAroundCameraUp angle s))"
proof -
  have "rotMatrix s ! 1 * rotMatrix s ! 1 + rotMatrix s ! 4 * rotMatrix s ! 4
      + rotMatrix s ! 7 * rotMatrix s ! 7 = 1"
    using assms unfolding properRotation_def orthonormal_iff by blast
  then show ?thesis
    unfolding rotateAroundCameraUp_def Let_def
    by (rule rotateAroundAxis_proper [OF assms])
qed

lemma rotateAroundCameraRight_proper:
  assumes "properRotation (rotMatrix s)"
  shows "properRotation (rotMatrix (rotateAroundCameraRight angle s))"
proof -
  have "rotMatrix s ! 0 * rotMatrix s ! 0 + rotMatrix s ! 3 * rotMatrix s ! 3
      + rotMatrix s ! 6 * rotMatrix s ! 6 = 1"
    using assms unfolding properRotation_def orthonormal_iff by blast
  then show ?thesis
    unfolding rotateAroundCameraRight_def Let_def
    by (rule rotateAroundAxis_proper [OF assms])
qed

lemma rotate_proper:
  "properRotation (rotMatrix s) \<Longrightarrow> properRotation (rotMatrix (rotate r s))"
  by (cases r) (simp_all add: rotateAroundCameraUp_proper rotateAroundCameraRight_proper)

lemma rotateAll_proper:
  "properRotation (rotMatrix s) \<Longrightarrow> properRotation (rotMatrix (rotateAll rs s))"
  by (induction rs arbitrary: s) (simp_all add: rotate_proper)

lemma dragTo_proper:
  "properRotation (rotMatrix s) \<Longrightarrow> properRotation (rotMatrix (dragTo x y s))"
  by (simp add: dragTo_def Let_def rotateAroundCameraUp_proper rotateAroundCameraRight_proper)

lemma handle_proper:
  "properRotation (rotMatrix s) \<Longrightarrow> properRotation (rotMatrix (handle e s))"
  by (cases e)
     (simp_all add: onMouseDown_def onMouseMove_def onMouseUp_def onWheel_def Let_def
        onTouchStart_def onTouchMove_def onTouchEnd_def update_def reset_def
        dragTo_proper identity_proper)

lemma handleAll_proper:
  "properRotation (rotMatrix s) \<Longrightarrow> properRotation (rotMatrix (handleAll es s))"
  by (induction es arbitrary: s) (simp_all add: handle_proper)

text \<open>
  Claim C7. Starting from the identity orientation (that of a new controller, and that
  left by \<open>reset\<close>), after any finite sequence of rotations around the current up axis
  and the current right axis, with any angles, the orientation matrix has nine entries,
  orthonormal columns and determinant 1, in real arithmetic. The same holds after any
  finite sequence of the inputs a controller receives.
\<close>

theorem orientation_stays_proper_rotation:
  "properRotation (rotMatrix (rotateAll rs (newCameraController pos up)))
   \<and> properRotation (rotMatrix (rotateAll rs (reset this)))
   \<and> properRotation (rotMatrix (handleAll es (newCameraController pos up)))"
proof -
  have "properRotation (rotMatrix (newCameraController pos up))"
    by (simp add: newCameraController_def identity_proper)
  moreover have "properRotation (rotMatrix (reset this))"
    by (simp add: reset_def identity_proper)
  ultimately show ?thesis
    by (simp add: rotateAll_proper handleAll_proper)
qed


section \<open>Zoom\<close>

lemma update_fields:
  "distance (update s) = distance s + (targetDistance s - distance s) * smoothing s"
  "targetDistance (update s) = targetDistance s"
  "smoothing (update s) = smoothing s"
  by (simp_all add: update_def)

lemma dragTo_fields [simp]:
  "distance (dragTo x y s) = distance s"
  "targetDistance (dragTo x y s) = targetDistance s"
  "smoothing (dragTo x y s) = smoothing s"
  by (simp_all add: dragTo_def Let_def rotateAroundCameraUp_def rotateAroundCameraRight_def
        rotateAroundAxis_def)

lemma handle_smoothing: "smoothing (handle e s) = smoothing s"
  by (cases e)
     (simp_all add: onMouseDown_def onMouseMove_def onMouseUp_def onWheel_def Let_def
        onTouchStart_def onTouchMove_def onTouchEnd_def update_def reset_def)

lemma handleAll_smoothing: "smoothing (handleAll es s) = smoothing s"
  by (induction es arbitrary: s) (simp_all add: handle_smoothing)

lemma handle_distance:
  "e \<noteq> Update \<Longrightarrow> e \<noteq> Reset \<Longrightarrow> distance (handle e s) = distance s"
  by (cases e)
     (simp_all add: onMouseDown_def onMouseMove_def onMouseUp_def onWheel_def Let_def
        onTouchStart_def onTouchMove_def onTouchEnd_def)

lemma updates_fields:
  "targetDistance (updates n s) = targetDistance s" "smoothing (updates n s) = smoothing s"
  by (induction n arbitrary: s) (simp_all add: update_fields)

lemma updates_Suc: "updates (Suc n) s = update (updates n s)"
  by (induction n arbitrary: s) simp_all

lemma updates_distance:
  "distance (updates n s) =
     targetDistance s + (distance s - targetDistance s) * (1 - smoothing s) ^ n"
proof (induction n)
  case 0
  show ?case by simp
next
  case (Suc n)
  have "distance (updates (Suc n) s) =
      distance (updates n s) + (targetDistance s - distance (updates n s)) * smoothing s"
    unfolding updates_Suc by (simp add: update_fields updates_fields)
  also have "\<dots> = targetDistance s + (distance s - targetDistance s) * (1 - smoothing s) ^ Suc n"
    unfolding Suc.IH by (simp add: algebra_simps)
  finally show ?case .
qed

lemma updates_limit:
  assumes "smoothing s = 0.1"
  shows "(\<lambda>n. distance (updates n s)) \<longlonglongrightarrow> targetDistance s"
proof -
  have p: "(\<lambda>n. ((9::real) / 10) ^ n) \<longlonglongrightarrow> 0"
    by (rule LIMSEQ_realpow_zero) simp_all
  have "(\<lambda>n. (distance s - targetDistance s) * ((9::real) / 10) ^ n)
      \<longlonglongrightarrow> (distance s - targetDistance s) * 0"
    by (rule tendsto_mult_left [OF p])
  then have "(\<lambda>n. targetDistance s + (distance s - targetDistance s) * ((9::real) / 10) ^ n)
      \<longlonglongrightarrow> targetDistance s + (distance s - targetDistance s) * 0"
    by (rule tendsto_add [OF tendsto_const])
  then show ?thesis
    unfolding updates_distance assms by simp
qed

lemma updates_monotone:
  assumes "smoothing s = 0.1"
  shows "(distance s \<le> targetDistance s \<longrightarrow>
            distance (updates n s) \<le> distance (updates (Suc n) s) \<and>
            distance (updates (Suc n) s) \<le> targetDistance s)
       \<and> (targetDistance s \<le> distance s \<longrightarrow>
            targetDistance s \<le> distance (updates (Suc n) s) \<and>
            distance (updates (Suc n) s) \<le> distance (updates n s))"
proof -
  define q where "q = ((9::real) / 10) ^ n"
  have q: "0 \<le> q" by (simp add: q_def)
  have d: "distance (updates n s) = targetDistance s + (distance s - targetDistance s) * q"
    "distance (updates (Suc n) s)
       = targetDistance s + (distance s - targetDistance s) * (q * (9 / 10))"
    unfolding updates_distance assms q_def by simp_all
  have le: "q * (9 / 10) \<le> q" "0 \<le> q * (9 / 10)" using q by simp_all
  show ?thesis
  proof (intro conjI impI)
    assume a: "distance s \<le> targetDistance s"
    then have "(distance s - targetDistance s) * q \<le> (distance s - targetDistance s) * (q * (9 / 10))"
      using le by (intro mult_left_mono_neg) simp_all
    then show "distance (updates n s) \<le> distance (updates (Suc n) s)"
      unfolding d by simp
    have "(distance s - targetDistance s) * (q * (9 / 10)) \<le> 0"
      using a le by (intro mult_nonpos_nonneg) simp_all
    then show "distance (updates (Suc n) s) \<le> targetDistance s"
      unfolding d by simp
  next
    assume a: "targetDistance s \<le> distance s"
    then have "(distance s - targetDistance s) * (q * (9 / 10)) \<le> (distance s - targetDistance s) * q"
      using le by (intro mult_left_mono) simp_all
    then show "distance (updates (Suc n) s) \<le> distance (updates n s)"
      unfolding d by simp
    have "0 \<le> (distance s - targetDistance s) * (q * (9 / 10))"
      using a le by (intro mult_nonneg_nonneg) simp_all
    then show "targetDistance s \<le> distance (updates (Suc n) s)"
      unfolding d by simp
  qed
qed

lemma onWheel_fields:
  "targetDistance (onWheel deltaY s) =
     max 10 (min 500 (targetDistance s * (if deltaY > 0 then 1 + 0.1 else 1 - 0.1)))"
  "distance (onWheel deltaY s) = distance s"
  by (simp_all add: onWheel_def Let_def)

text \<open>
  Claim C8, amended. A wheel event multiplies \<open>targetDistance\<close> by \<open>1 + 0.1\<close> when
  \<open>deltaY > 0\<close> and by \<open>1 - 0.1\<close> otherwise, clamps the result to \<open>[10, 500]\<close>, and leaves
  \<open>distance\<close> as it was. Of all inputs, only \<open>update\<close> and \<open>reset\<close> change \<open>distance\<close>;
  \<open>reset\<close> sets it, and \<open>targetDistance\<close>, to 100. The smoothing factor of every reachable controller is 0.1, and
  with it \<open>update\<close> moves \<open>distance\<close> towards \<open>targetDistance\<close> by the fraction 0.1: after
  \<open>n\<close> updates the remaining gap is the initial gap times \<open>0.9 ^ n\<close>, each further update
  lands between the current distance and the target, and the distances converge to the
  target.
\<close>

theorem zoom_is_smoothed:
  "targetDistance (onWheel deltaY this) =
     max 10 (min 500 (targetDistance this * (if deltaY > 0 then 1 + 0.1 else 1 - 0.1)))
   \<and> 10 \<le> targetDistance (onWheel deltaY this) \<and> targetDistance (onWheel deltaY this) \<le> 500
   \<and> distance (onWheel deltaY this) = distance this
   \<and> (e \<noteq> Update \<and> e \<noteq> Reset \<longrightarrow> distance (handle e this) = distance this)
   \<and> distance (reset this) = 100 \<and> targetDistance (reset this) = 100
   \<and> smoothing (handleAll es (newCameraController pos up)) = 0.1
   \<and> (smoothing this = 0.1 \<longrightarrow>
        distance (update this) = distance this + (targetDistance this - distance this) * 0.1
        \<and> targetDistance (update this) = targetDistance this
        \<and> distance (updates n this)
            = targetDistance this + (distance this - targetDistance this) * 0.9 ^ n
        \<and> (distance this \<le> targetDistance this \<longrightarrow>
              distance (updates n this) \<le> distance (updates (Suc n) this) \<and>
              distance (updates (Suc n) this) \<le> targetDistance this)
        \<and> (targetDistance this \<le> distance this \<longrightarrow>
              targetDistance this \<le> distance (updates (Suc n) this) \<and>
              distance (updates (Suc n) this) \<le> distance (updates n this))
        \<and> (\<lambda>n. distance (updates n this)) \<longlonglongrightarrow> targetDistance this)"
proof -
  have 1: "10 \<le> targetDistance (onWheel deltaY this) \<and> targetDistance (onWheel deltaY this) \<le> 500"
    by (simp add: onWheel_def Let_def)
  have 2: "smoothing (handleAll es (newCameraController pos up)) = 0.1"
    by (simp add: handleAll_smoothing newCameraController_def)
  have 3: "distance (reset this) = 100 \<and> targetDistance (reset this) = 100"
    by (simp add: reset_def)
  have 4: "smoothing this = 0.1 \<longrightarrow>
        distance (update this) = distance this + (targetDistance this - distance this) * 0.1
        \<and> targetDistance (update this) = targetDistance this
        \<and> distance (updates n this)
            = targetDistance this + (distance this - targetDistance this) * 0.9 ^ n"
  proof
    assume a: "smoothing this = 0.1"
    then have b: "1 - smoothing this = 0.9" by simp
    show "distance (update this) = distance this + (targetDistance this - distance this) * 0.1
        \<and> targetDistance (update this) = targetDistance this
        \<and> distance (updates n this)
            = targetDistance this + (distance this - targetDistance this) * 0.9 ^ n"
      unfolding update_fields updates_distance b unfolding a by simp
  qed
  show ?thesis
    using 1 2 3 4 onWheel_fields [of deltaY this] handle_distance [of e this]
      updates_monotone [of this n] updates_limit [of this]
    by blast
qed

theorem zoom_is_smoothed_witness:
  "MouseUp \<noteq> Update \<and> MouseUp \<noteq> Reset
   \<and> smoothing (newCameraController (Vec3 0 0 100) (Vec3 0 1 0)) = 0.1
   \<and> distance (newCameraController (Vec3 0 0 100) (Vec3 0 1 0))
        \<le> targetDistance (onWheel 1 (newCameraController (Vec3 0 0 100) (Vec3 0 1 0)))
   \<and> targetDistance (onWheel 1 (newCameraController (Vec3 0 0 100) (Vec3 0 1 0))) = 110
   \<and> distance (onWheel 1 (newCameraController (Vec3 0 0 100) (Vec3 0 1 0))) = 100
   \<and> distance (update (onWheel 1 (newCameraController (Vec3 0 0 100) (Vec3 0 1 0)))) = 101
   \<and> distance (handle MouseUp (newCameraController (Vec3 0 0 100) (Vec3 0 1 0))) = 100
   \<and> targetDistance (newCameraController (Vec3 0 0 100) (Vec3 0 1 0))
        \<le> distance (newCameraController (Vec3 0 0 100) (Vec3 0 1 0))
   \<and> distance (updates (Suc 0) (newCameraController (Vec3 0 0 100) (Vec3 0 1 0)))
        \<le> distance (updates 0 (newCameraController (Vec3 0 0 100) (Vec3 0 1 0)))"
proof -
  let ?s = "newCameraController (Vec3 0 0 100) (Vec3 0 1 0)"
  have f: "smoothing (onWheel 1 ?s) = 0.1" "distance (onWheel 1 ?s) = 100"
    "targetDistance (onWheel 1 ?s) = 110" "distance ?s = 100" "smoothing ?s = 0.1"
    "targetDistance ?s = 100"
    by (simp_all add: onWheel_def newCameraController_def Let_def)
  from zoom_is_smoothed [where this = "onWheel 1 ?s" and e = MouseUp and n = 0]
       zoom_is_smoothed [where this = "?s" and e = MouseUp and n = 0 and deltaY = 1] f
  show ?thesis by simp
qed

text \<open>
  Claim C8 as stated, at a counterexample: \<open>reset\<close>, which is not \<open>update\<close>, changes the
  distance of a controller whose distance is 50 to 100.
\<close>

theorem reset_changes_distance:
  "distance \<lparr>isMouseDown = False, lastMouseX = 0, lastMouseY = 0, distance = 50,
             targetDistance = 50, rotMatrix = [1, 0, 0, 0, 1, 0, 0, 0, 1], smoothing = 0.1,
             cameraPosition = Vec3 0 0 50, cameraUp = Vec3 0 1 0\<rparr> = 50
   \<and> distance (reset \<lparr>isMouseDown = False, lastMouseX = 0, lastMouseY = 0, distance = 50,
             targetDistance = 50, rotMatrix = [1, 0, 0, 0, 1, 0, 0, 0, 1], smoothing = 0.1,
             cameraPosition = Vec3 0 0 50, cameraUp = Vec3 0 1 0\<rparr>) = 100"
  by (simp add: reset_def)

section \<open>The initial particle store\<close>

lemma sphere_point:
  fixes r sp cp st ct :: real
  assumes "sp * sp + cp * cp = 1" "st * st + ct * ct = 1"
  shows "(r * sp * ct) * (r * sp * ct) + (r * sp * st) * (r * sp * st) + (r * cp) * (r * cp) = r * r"
  using assms by algebra

lemma tangent_speed:
  fixes s st ct :: real
  assumes "st * st + ct * ct = 1"
  shows "(- s * st) * (- s * st) + (s * ct) * (s * ct) + 0 * 0 = s * s"
  using assms by algebra

lemma sin_cos_sq: "sin (a::real) * sin a + cos a * cos a = 1"
  using sin_cos_squared_add [of a] by (simp add: power2_eq_square)

lemma drawn_position_length:
  assumes "0 \<le> rnd k"
  shows "vlength (position (drawn G rnd k)) = rnd k * 20 + 5"
proof -
  have "0 \<le> rnd k * 20 + 5" using assms by simp
  then have "sqrt ((rnd k * 20 + 5) * (rnd k * 20 + 5)) = rnd k * 20 + 5"
    by (rule sqrt_sq [OF _ refl])
  then show ?thesis
    by (simp only: drawn_def Let_def vlength_def dot_def Particle.simps vec3.sel
          sphere_point [OF sin_cos_sq sin_cos_sq])
qed

lemma drawn_velocity_length:
  assumes "0 \<le> rnd k" "0 \<le> G"
  shows "vlength (velocity (drawn G rnd k)) = sqrt (G * 100 / (rnd k * 20 + 5)) * 0.3"
proof -
  have "0 \<le> sqrt (G * 100 / (rnd k * 20 + 5)) * 0.3" using assms by simp
  then have "sqrt ((sqrt (G * 100 / (rnd k * 20 + 5)) * 0.3) * (sqrt (G * 100 / (rnd k * 20 + 5)) * 0.3))
      = sqrt (G * 100 / (rnd k * 20 + 5)) * 0.3"
    by (rule sqrt_sq [OF _ refl])
  then show ?thesis
    by (simp only: drawn_def Let_def vlength_def dot_def Particle.simps vec3.sel
          tangent_speed [OF sin_cos_sq])
qed

lemma drawn_initialOrbit:
  assumes "0 \<le> rnd k" "rnd k < 1" "0 \<le> rnd (k + 3)" "rnd (k + 3) < 1" "0 \<le> G"
  shows "initialOrbit G (drawn G rnd k)"
proof -
  have 1: "vlength (position (drawn G rnd k)) = rnd k * 20 + 5"
    using assms by (simp add: drawn_position_length)
  have 2: "vlength (velocity (drawn G rnd k)) = sqrt (G * 100 / (rnd k * 20 + 5)) * 0.3"
    using assms by (simp add: drawn_velocity_length)
  have 3: "dot (velocity (drawn G rnd k)) (position (drawn G rnd k)) = 0"
    by (simp add: drawn_def Let_def dot_def)
  have 4: "vz (velocity (drawn G rnd k)) = 0" "mass (drawn G rnd k) = rnd (k + 3) * 0.5 + 0.5"
    by (simp_all add: drawn_def Let_def)
  show ?thesis
    unfolding initialOrbit_def Let_def 1 2 3 4 using assms by simp
qed

lemma Simple_newParticle_drawn:
  assumes "0 \<le> rnd k" "0 \<le> G"
  shows "Simple_newParticle G rnd k = Some (drawn G rnd k)"
proof -
  have "rnd k * 20 + 5 \<noteq> 0" using assms by simp
  moreover have "\<not> G * 100 / (rnd k * 20 + 5) < 0"
    using assms by (simp add: not_less)
  ultimately show ?thesis
    by (simp add: Simple_newParticle_def drawn_def Let_def fdiv_def fsqrt_def)
qed

lemma NBody_newParticle_drawn:
  assumes "0 \<le> rnd k" "0 \<le> G"
  shows "NBody_newParticle G rnd k = Some (drawn G rnd k)"
proof -
  have "rnd k * 20 + 5 \<noteq> 0" using assms by simp
  moreover have "\<not> G * 100 / (rnd k * 20 + 5) < 0"
    using assms by (simp add: not_less)
  ultimately show ?thesis
    by (simp add: NBody_newParticle_def drawn_def Let_def fdiv_def fsqrt_def)
qed

lemma Simple_initLoop_drawn:
  assumes "\<forall>k. 0 \<le> rnd k" "0 \<le> Simulation.gravityStrength this"
  shows "Simple_initLoop rnd this i ps =
     Some (ps @ map (\<lambda>j. drawn (Simulation.gravityStrength this) rnd (4 * j))
                   [i ..< nat (Simulation.particleCount this)])"
  using assms
proof (induction rnd this i ps rule: Simple_initLoop.induct)
  case (1 rnd this i ps)
  show ?case
  proof (cases "int i < Simulation.particleCount this")
    case False
    then show ?thesis by (subst Simple_initLoop.simps) simp
  next
    case True
    then have lt: "i < nat (Simulation.particleCount this)" by simp
    have p: "Simple_newParticle (Simulation.gravityStrength this) rnd (4 * i)
        = Some (drawn (Simulation.gravityStrength this) rnd (4 * i))"
      using "1.prems" by (simp add: Simple_newParticle_drawn)
    show ?thesis
      using True "1.IH" [OF True p "1.prems"]
      by (subst Simple_initLoop.simps) (simp add: p upt_conv_Cons [OF lt])
  qed
qed

lemma NBody_initLoop_drawn:
  assumes "\<forall>k. 0 \<le> rnd k" "0 \<le> Simulation.gravityStrength this"
  shows "NBody_initLoop rnd this i ps =
     Some (ps @ map (\<lambda>j. drawn (Simulation.gravityStrength this) rnd (4 * j))
                   [i ..< nat (Simulation.particleCount this)])"
  using assms
proof (induction rnd this i ps rule: NBody_initLoop.induct)
  case (1 rnd this i ps)
  show ?case
  proof (cases "int i < Simulation.particleCount this")
    case False
    then show ?thesis by (subst NBody_initLoop.simps) simp
  next
    case True
    then have lt: "i < nat (Simulation.particleCount this)" by simp
    have p: "NBody_newParticle (Simulation.gravityStrength this) rnd (4 * i)
        = Some (drawn (Simulation.gravityStrength this) rnd (4 * i))"
      using "1.prems" by (simp add: NBody_newParticle_drawn)
    show ?thesis
      using True "1.IH" [OF True p "1.prems"]
      by (subst NBody_initLoop.simps) (simp add: p upt_conv_Cons [OF lt])
  qed
qed

lemma Simple_initializeParticles_Some:
  assumes "\<forall>k. 0 \<le> rnd k" "0 \<le> Simulation.gravityStrength this"
  shows "\<exists>sim. Simple_initializeParticles rnd this = Some sim \<and>
           length (particles sim) = nat (Simulation.particleCount this) \<and>
           Simulation.particleCount sim = Simulation.particleCount this \<and>
           Simulation.gravityStrength sim = Simulation.gravityStrength this \<and>
           (\<forall>i. 1 \<le> i \<and> i < nat (Simulation.particleCount this) \<longrightarrow>
                particles sim ! i = drawn (Simulation.gravityStrength this) rnd (4 * i)) \<and>
           (0 < Simulation.particleCount this \<longrightarrow>
                particles sim ! 0 =
                  \<lparr>position = Vec3 0 0 0, mass = 2, velocity = Vec3 0 0 0, padding = 0\<rparr>)"
proof -
  define ps where "ps = map (\<lambda>j. drawn (Simulation.gravityStrength this) rnd (4 * j))
                   [0 ..< nat (Simulation.particleCount this)]"
  have loop: "Simple_initLoop rnd this 0 [] = Some ps"
    using Simple_initLoop_drawn [OF assms, of 0 "[]"] by (simp add: ps_def)
  have len: "length ps = nat (Simulation.particleCount this)" by (simp add: ps_def)
  have pad: "0 < length ps \<Longrightarrow> padding (ps ! 0) = 0"
    by (simp add: ps_def drawn_def Let_def)
  have nth: "i < nat (Simulation.particleCount this) \<Longrightarrow>
      ps ! i = drawn (Simulation.gravityStrength this) rnd (4 * i)" for i
    by (simp add: ps_def)
  show ?thesis
  proof (cases "0 < length ps")
    case False
    then show ?thesis
      using len by (simp add: Simple_initializeParticles_def loop)
  next
    case True
    have eq: "(ps ! 0)\<lparr>position := Vec3 0 0 0, velocity := Vec3 0 0 0, mass := 2\<rparr>
        = \<lparr>position = Vec3 0 0 0, mass = 2, velocity = Vec3 0 0 0, padding = 0\<rparr>"
      using pad [OF True] by (cases "ps ! 0") simp
    define ps' where
      "ps' = ps[0 := (ps ! 0)\<lparr>position := Vec3 0 0 0, velocity := Vec3 0 0 0, mass := 2\<rparr>]"
    have run: "Simple_initializeParticles rnd this = Some (this\<lparr>particles := ps'\<rparr>)"
      using True by (simp add: Simple_initializeParticles_def loop ps'_def)
    have l': "length ps' = nat (Simulation.particleCount this)"
      by (simp add: ps'_def len)
    have z': "ps' ! 0 = \<lparr>position = Vec3 0 0 0, mass = 2, velocity = Vec3 0 0 0, padding = 0\<rparr>"
      unfolding ps'_def using True by (simp only: nth_list_update_eq eq)
    have n': "1 \<le> i \<and> i < nat (Simulation.particleCount this) \<longrightarrow>
        ps' ! i = drawn (Simulation.gravityStrength this) rnd (4 * i)" for i
      using nth [of i] by (simp add: ps'_def)
    show ?thesis
      using run l' z' n' by (intro exI [of _ "this\<lparr>particles := ps'\<rparr>"]) simp
  qed
qed

lemma NBody_initializeParticles_Some:
  assumes "\<forall>k. 0 \<le> rnd k" "0 \<le> Simulation.gravityStrength this"
    "0 \<le> Simulation.particleCount this"
  shows "\<exists>sim. NBody_initializeParticles rnd this = Some sim \<and>
           length (particles sim) = nat (Simulation.particleCount this) \<and>
           Simulation.particleCount sim = Simulation.particleCount this \<and>
           Simulation.gravityStrength sim = Simulation.gravityStrength this \<and>
           (\<forall>i. 1 \<le> i \<and> i < nat (Simulation.particleCount this) \<longrightarrow>
                particles sim ! i = drawn (Simulation.gravityStrength this) rnd (4 * i)) \<and>
           (0 < Simulation.particleCount this \<longrightarrow>
                particles sim ! 0 =
                  \<lparr>position = Vec3 0 0 0, mass = 1, velocity = Vec3 0 0 0, padding = 0\<rparr>)"
proof -
  define ps where "ps = map (\<lambda>j. drawn (Simulation.gravityStrength this) rnd (4 * j))
                   [0 ..< nat (Simulation.particleCount this)]"
  have loop: "NBody_initLoop rnd this 0 [] = Some ps"
    using NBody_initLoop_drawn [OF assms(1,2), of 0 "[]"] by (simp add: ps_def)
  have len: "length ps = nat (Simulation.particleCount this)" by (simp add: ps_def)
  have nth: "i < nat (Simulation.particleCount this) \<Longrightarrow>
      ps ! i = drawn (Simulation.gravityStrength this) rnd (4 * i)" for i
    by (simp add: ps_def)
  show ?thesis
    using assms(3) len nth
    by (simp add: NBody_initializeParticles_def loop)
qed

text \<open>
  Claim C4, amended. Let the draws be in \<open>[0, 1)\<close>, the gravity strength non-negative
  and the particle count a non-negative integer. Then \<open>initializeParticles\<close> of either
  simulation succeeds and leaves exactly \<open>particleCount\<close> particles; every particle with
  index at least 1 is at a distance in \<open>[5, 25)\<close> from the origin, has a mass in
  \<open>[0.5, 1.0)\<close>, and has a velocity of magnitude \<open>sqrt(gravityStrength * 100 / radius) * 0.3\<close>
  that is perpendicular to its position and has no z-component; particle 0 is at the
  origin with zero velocity, with mass 1 in the GPU simulation and mass 2 in the CPU
  simulation. Reset reruns the initialisation, and so does a resize, after setting the
  particle count to the floor of the requested count (capped at 4000 by the CPU
  simulation; the GPU simulation reruns it unless the count is beyond what the platform
  allocates, and then rebuilds no store).
\<close>

theorem initial_particle_store:
  assumes "\<forall>k. 0 \<le> rnd k \<and> rnd k < 1"
    and "0 \<le> Simulation.gravityStrength this"
    and "0 \<le> Simulation.particleCount this"
  shows "(\<exists>sim. NBody_initializeParticles rnd this = Some sim \<and>
            int (length (particles sim)) = Simulation.particleCount this \<and>
            (\<forall>i. 1 \<le> i \<and> i < length (particles sim) \<longrightarrow>
                 initialOrbit (Simulation.gravityStrength this) (particles sim ! i)) \<and>
            (0 < Simulation.particleCount this \<longrightarrow>
                 particles sim ! 0 =
                   \<lparr>position = Vec3 0 0 0, mass = 1, velocity = Vec3 0 0 0, padding = 0\<rparr>))
       \<and> (\<exists>sim. Simple_initializeParticles rnd this = Some sim \<and>
            int (length (particles sim)) = Simulation.particleCount this \<and>
            (\<forall>i. 1 \<le> i \<and> i < length (particles sim) \<longrightarrow>
                 initialOrbit (Simulation.gravityStrength this) (particles sim ! i)) \<and>
            (0 < Simulation.particleCount this \<longrightarrow>
                 particles sim ! 0 =
                   \<lparr>position = Vec3 0 0 0, mass = 2, velocity = Vec3 0 0 0, padding = 0\<rparr>))
       \<and> NBody_resetSimulation rnd this = NBody_initializeParticles rnd this
       \<and> Simple_resetSimulation rnd this = Simple_initializeParticles rnd this
       \<and> NBody_setParticleCount maxParticles rnd count this =
            (if \<lfloor>count\<rfloor> > maxParticles then None
             else NBody_initializeParticles rnd (this\<lparr>Simulation.particleCount := \<lfloor>count\<rfloor>\<rparr>))
       \<and> Simple_setParticleCount rnd count this =
            Simple_initializeParticles rnd (this\<lparr>Simulation.particleCount := \<lfloor>min count 4000\<rfloor>\<rparr>)"
proof -
  have r: "\<forall>k. 0 \<le> rnd k" using assms(1) by blast
  have orbit: "initialOrbit (Simulation.gravityStrength this)
      (drawn (Simulation.gravityStrength this) rnd (4 * i))" for i
    using assms(1,2) by (intro drawn_initialOrbit) simp_all
  obtain g where g: "NBody_initializeParticles rnd this = Some g"
    "length (particles g) = nat (Simulation.particleCount this)"
    "\<forall>i. 1 \<le> i \<and> i < nat (Simulation.particleCount this) \<longrightarrow>
         particles g ! i = drawn (Simulation.gravityStrength this) rnd (4 * i)"
    "0 < Simulation.particleCount this \<longrightarrow> particles g ! 0 =
         \<lparr>position = Vec3 0 0 0, mass = 1, velocity = Vec3 0 0 0, padding = 0\<rparr>"
    using NBody_initializeParticles_Some [OF r assms(2,3)] by blast
  obtain c where c: "Simple_initializeParticles rnd this = Some c"
    "length (particles c) = nat (Simulation.particleCount this)"
    "\<forall>i. 1 \<le> i \<and> i < nat (Simulation.particleCount this) \<longrightarrow>
         particles c ! i = drawn (Simulation.gravityStrength this) rnd (4 * i)"
    "0 < Simulation.particleCount this \<longrightarrow> particles c ! 0 =
         \<lparr>position = Vec3 0 0 0, mass = 2, velocity = Vec3 0 0 0, padding = 0\<rparr>"
    using Simple_initializeParticles_Some [OF r assms(2)] by blast
  have G: "\<exists>sim. NBody_initializeParticles rnd this = Some sim \<and>
            int (length (particles sim)) = Simulation.particleCount this \<and>
            (\<forall>i. 1 \<le> i \<and> i < length (particles sim) \<longrightarrow>
                 initialOrbit (Simulation.gravityStrength this) (particles sim ! i)) \<and>
            (0 < Simulation.particleCount this \<longrightarrow>
                 particles sim ! 0 =
                   \<lparr>position = Vec3 0 0 0, mass = 1, velocity = Vec3 0 0 0, padding = 0\<rparr>)"
    using g assms(3) orbit by (intro exI [of _ g]) simp
  have C: "\<exists>sim. Simple_initializeParticles rnd this = Some sim \<and>
            int (length (particles sim)) = Simulation.particleCount this \<and>
            (\<forall>i. 1 \<le> i \<and> i < length (particles sim) \<longrightarrow>
                 initialOrbit (Simulation.gravityStrength this) (particles sim ! i)) \<and>
            (0 < Simulation.particleCount this \<longrightarrow>
                 particles sim ! 0 =
                   \<lparr>position = Vec3 0 0 0, mass = 2, velocity = Vec3 0 0 0, padding = 0\<rparr>)"
    using c assms(3) orbit by (intro exI [of _ c]) simp
  show ?thesis
    using G C
    by (simp add: NBody_resetSimulation_def Simple_resetSimulation_def
          NBody_setParticleCount_def Simple_setParticleCount_def Let_def)
qed

theorem initial_particle_store_witness:
  "(\<forall>k. 0 \<le> halves k \<and> halves k < 1)
   \<and> (\<exists>sim. NBody_initializeParticles halves
          \<lparr>Simulation.particleCount = 3, Simulation.gravityStrength = 1, timeScale = 1,
           Simulation.damping = 1, particles = []\<rparr> = Some sim \<and>
          int (length (particles sim)) = 3 \<and>
          (\<forall>i. 1 \<le> i \<and> i < length (particles sim) \<longrightarrow> initialOrbit 1 (particles sim ! i)) \<and>
          particles sim ! 0 =
            \<lparr>position = Vec3 0 0 0, mass = 1, velocity = Vec3 0 0 0, padding = 0\<rparr>)
   \<and> (\<exists>sim. Simple_initializeParticles halves
          \<lparr>Simulation.particleCount = 3, Simulation.gravityStrength = 1, timeScale = 1,
           Simulation.damping = 1, particles = []\<rparr> = Some sim \<and>
          int (length (particles sim)) = 3 \<and>
          (\<forall>i. 1 \<le> i \<and> i < length (particles sim) \<longrightarrow> initialOrbit 1 (particles sim ! i)) \<and>
          particles sim ! 0 =
            \<lparr>position = Vec3 0 0 0, mass = 2, velocity = Vec3 0 0 0, padding = 0\<rparr>)"
proof -
  have h: "\<forall>k. 0 \<le> halves k \<and> halves k < 1" by (simp add: halves_def)
  show ?thesis
    using h initial_particle_store [OF h, where this =
        "\<lparr>Simulation.particleCount = 3, Simulation.gravityStrength = 1, timeScale = 1,
          Simulation.damping = 1, particles = []\<rparr>"]
    by simp
qed

text \<open>
  Claim C4 as stated, at a counterexample: in the CPU simulation, initialised with two
  particles, particle 0 has mass 2, not unit mass.
\<close>

theorem cpu_anchor_mass_is_two:
  "map_option (mass \<circ> hd \<circ> particles)
     (Simple_initializeParticles halves
        \<lparr>Simulation.particleCount = 2, Simulation.gravityStrength = 1, timeScale = 1,
         Simulation.damping = 1, particles = []\<rparr>) = Some 2"
proof -
  let ?sim = "\<lparr>Simulation.particleCount = 2, Simulation.gravityStrength = 1, timeScale = 1,
         Simulation.damping = 1, particles = []\<rparr>"
  have h: "\<forall>k. 0 \<le> halves k" by (simp add: halves_def)
  obtain c where c: "Simple_initializeParticles halves ?sim = Some c"
    "length (particles c) = 2"
    "particles c ! 0 = \<lparr>position = Vec3 0 0 0, mass = 2, velocity = Vec3 0 0 0, padding = 0\<rparr>"
    using Simple_initializeParticles_Some [OF h, of ?sim] by auto
  from c(2) have "hd (particles c) = particles c ! 0"
    by (cases "particles c") simp_all
  with c show ?thesis by simp
qed

lemma NBody_setParticleCount_beyond:
  "maxParticles < \<lfloor>count\<rfloor> \<Longrightarrow> NBody_setParticleCount maxParticles rnd count this = None"
  by (simp add: NBody_setParticleCount_def Let_def)

text \<open>
  Claim C10, amended. Let the draws be in \<open>[0, 1)\<close>, the gravity strength non-negative
  and the requested count above 4000. Then \<open>setParticleCount\<close> of the CPU simulation
  completes without an error and ends with exactly 4000 particles, the requested count
  silently capped. The GPU simulation has no maximum of its own: for every such count
  that the platform allocates, its \<open>setParticleCount\<close> completes without an error and ends
  with the floor of the requested count as its number of particles.
\<close>

theorem resize_never_reports:
  assumes "\<forall>k. 0 \<le> rnd k \<and> rnd k < 1"
    and "0 \<le> Simulation.gravityStrength this"
    and "4000 < count"
  shows "(\<exists>sim. Simple_setParticleCount rnd count this = Some sim \<and>
            Simulation.particleCount sim = 4000 \<and> length (particles sim) = 4000)
       \<and> (\<lfloor>count\<rfloor> \<le> maxParticles \<longrightarrow>
            (\<exists>sim. NBody_setParticleCount maxParticles rnd count this = Some sim \<and>
               Simulation.particleCount sim = \<lfloor>count\<rfloor> \<and>
               int (length (particles sim)) = \<lfloor>count\<rfloor>))"
proof -
  have r: "\<forall>k. 0 \<le> rnd k" using assms(1) by blast
  have m: "\<lfloor>min count 4000\<rfloor> = 4000" using assms(3) by simp
  have f: "0 \<le> \<lfloor>count\<rfloor>" using assms(3) by simp
  have C: "\<exists>sim. Simple_setParticleCount rnd count this = Some sim \<and>
            Simulation.particleCount sim = 4000 \<and> length (particles sim) = 4000"
    using Simple_initializeParticles_Some [OF r,
        of "this\<lparr>Simulation.particleCount := \<lfloor>min count 4000\<rfloor>\<rparr>"] assms(2)
    unfolding Simple_setParticleCount_def m by auto
  have G: "\<exists>sim. NBody_setParticleCount maxParticles rnd count this = Some sim \<and>
            Simulation.particleCount sim = \<lfloor>count\<rfloor> \<and>
            int (length (particles sim)) = \<lfloor>count\<rfloor>"
    if b: "\<lfloor>count\<rfloor> \<le> maxParticles"
  proof -
    have e: "NBody_setParticleCount maxParticles rnd count this =
        NBody_initializeParticles rnd (this\<lparr>Simulation.particleCount := \<lfloor>count\<rfloor>\<rparr>)"
      using b by (simp add: NBody_setParticleCount_def Let_def)
    show ?thesis
      using NBody_initializeParticles_Some [OF r,
          of "this\<lparr>Simulation.particleCount := \<lfloor>count\<rfloor>\<rparr>"] assms(2,3) f
      unfolding e by auto
  qed
  show ?thesis using C G by blast
qed

theorem resize_never_reports_witness:
  "(\<forall>k. 0 \<le> halves k \<and> halves k < 1) \<and> (4000::real) < 5000
   \<and> \<lfloor>5000::real\<rfloor> \<le> 10000
   \<and> (\<exists>sim. Simple_setParticleCount halves 5000
          \<lparr>Simulation.particleCount = 500, Simulation.gravityStrength = 1, timeScale = 1,
           Simulation.damping = 0.999, particles = []\<rparr> = Some sim \<and>
          Simulation.particleCount sim = 4000 \<and> length (particles sim) = 4000)
   \<and> (\<exists>sim. NBody_setParticleCount 10000 halves 5000
          \<lparr>Simulation.particleCount = 500, Simulation.gravityStrength = 1, timeScale = 1,
           Simulation.damping = 0.999, particles = []\<rparr> = Some sim \<and>
          Simulation.particleCount sim = 5000 \<and> int (length (particles sim)) = 5000)"
proof -
  have h: "\<forall>k. 0 \<le> halves k \<and> halves k < 1" by (simp add: halves_def)
  show ?thesis
    using h resize_never_reports [OF h, where count = 5000 and maxParticles = 10000 and this =
        "\<lparr>Simulation.particleCount = 500, Simulation.gravityStrength = 1, timeScale = 1,
          Simulation.damping = 0.999, particles = []\<rparr>"]
    by simp
qed

text \<open>
  Claim C10 as stated, at a counterexample: a request for 5000 particles to the CPU
  simulation completes and leaves the particle count at 4000.
\<close>

theorem resize_silently_caps:
  "map_option Simulation.particleCount
     (Simple_setParticleCount halves 5000
        \<lparr>Simulation.particleCount = 500, Simulation.gravityStrength = 1, timeScale = 1,
         Simulation.damping = 0.999, particles = []\<rparr>) = Some 4000"
proof -
  let ?sim = "\<lparr>Simulation.particleCount = 500, Simulation.gravityStrength = 1, timeScale = 1,
         Simulation.damping = 0.999, particles = []\<rparr>"
  have h: "\<forall>k. 0 \<le> halves k" by (simp add: halves_def)
  have m: "\<lfloor>min (5000::real) 4000\<rfloor> = 4000" by simp
  obtain c where "Simple_setParticleCount halves 5000 ?sim = Some c"
    "Simulation.particleCount c = 4000"
    using Simple_initializeParticles_Some [OF h,
        of "?sim\<lparr>Simulation.particleCount := \<lfloor>min 5000 4000\<rfloor>\<rparr>"]
    unfolding Simple_setParticleCount_def m by auto
  then show ?thesis by simp
qed

section \<open>Mirror symmetry of a pair\<close>

text \<open>
  The loop body of the CPU force pass has a value for every pair of particles, and the
  force of \<open>a\<close> on \<open>b\<close> is the negation of the force of \<open>b\<close> on \<open>a\<close>.
\<close>

lemma vneg_vneg [simp]: "vneg (vneg v) = v"
  by (cases v) (simp add: vneg_def)

lemma vneg_sel [simp]: "vx (vneg v) = - vx v" "vy (vneg v) = - vy v" "vz (vneg v) = - vz v"
  by (simp_all add: vneg_def)

lemma pairForce_value:
  "pairForce G a b =
     Some (let dx = vx (position b) - vx (position a);
               dy = vy (position b) - vy (position a);
               dz = vz (position b) - vz (position a);
               d2 = dx * dx + dy * dy + dz * dz + 0.01;
               F = G * mass a * mass b / d2
           in Vec3 (F * dx / sqrt d2) (F * dy / sqrt d2) (F * dz / sqrt d2))"
proof -
  define dx where "dx = vx (position b) - vx (position a)"
  define dy where "dy = vy (position b) - vy (position a)"
  define dz where "dz = vz (position b) - vz (position a)"
  have "0 \<le> dx * dx" "0 \<le> dy * dy" "0 \<le> dz * dz" by simp_all
  then have pos: "0 < dx * dx + dy * dy + dz * dz + 0.01"
    by (intro add_nonneg_pos add_nonneg_nonneg) simp_all
  then have nz: "dx * dx + dy * dy + dz * dz + 0.01 \<noteq> 0" by simp
  have "0 < sqrt (dx * dx + dy * dy + dz * dz + 0.01)"
    using pos by (simp only: real_sqrt_gt_0_iff)
  then have sz: "sqrt (dx * dx + dy * dy + dz * dz + 0.01) \<noteq> 0" by simp
  show ?thesis
    unfolding pairForce_def Let_def fdiv_def dx_def [symmetric] dy_def [symmetric] dz_def [symmetric]
    using nz sz by simp
qed

lemma pairForce_antisymmetric:
  "pairForce G b a = map_option vneg (pairForce G a b)"
proof -
  have sq: "(x - y) * (x - y) = (y - x) * (y - x)" for x y :: real by algebra
  have e: "vx (position a) - vx (position b) = - (vx (position b) - vx (position a))"
    "vy (position a) - vy (position b) = - (vy (position b) - vy (position a))"
    "vz (position a) - vz (position b) = - (vz (position b) - vz (position a))"
    by simp_all
  show ?thesis
    unfolding pairForce_value Let_def
    by (simp add: vneg_def sq [of "vx (position a)"] sq [of "vy (position a)"]
          sq [of "vz (position a)"] mult.commute [of "mass b"] e del: minus_diff_eq)
qed

text \<open>
  The integration step and the boundary tests map mirrored particles, moved by opposite
  forces, to mirrored particles. Hence every frame of the CPU simulation maps a
  mirrored pair of non-zero mass to a mirrored pair, any number of times.
\<close>

lemma vec3_eqI: "vx a = vx b \<Longrightarrow> vy a = vy b \<Longrightarrow> vz a = vz b \<Longrightarrow> a = b"
  by (cases a; cases b) simp

lemma eulerStep_mirrored:
  assumes "mirrored a b"
  shows "mirrored (eulerStep dt damp F a) (eulerStep dt damp (vneg F) b)"
  using assms
  by (simp add: mirrored_def eulerStep_def Let_def vneg_def vadd_def smul_def algebra_simps)

lemma boundaryConditions_mirrored:
  assumes "mirrored a b"
  shows "mirrored (boundaryConditions a) (boundaryConditions b)"
proof -
  from assms have p: "position b = vneg (position a)" and v: "velocity b = vneg (velocity a)"
    and m: "mass b = mass a"
    by (simp_all add: mirrored_def)
  have "position (boundaryConditions b) = vneg (position (boundaryConditions a))"
    by (rule vec3_eqI) (simp_all add: boundaryConditions_axes p v sgn_minus)
  moreover have "velocity (boundaryConditions b) = vneg (velocity (boundaryConditions a))"
    by (rule vec3_eqI) (simp_all add: boundaryConditions_axes p v)
  ultimately show ?thesis
    by (simp add: mirrored_def boundaryConditions_axes m)
qed

lemma forcesLoop_pair:
  assumes "Simulation.particleCount sim = 2" "particles sim = [a, b]"
  shows "\<exists>f. pairForce (Simulation.gravityStrength sim) a b = Some f \<and>
             forcesLoop sim 0 [] = Some [f, vneg f]"
proof -
  obtain f where f: "pairForce (Simulation.gravityStrength sim) a b = Some f"
    using pairForce_value [of "Simulation.gravityStrength sim" a b] by blast
  then have g: "pairForce (Simulation.gravityStrength sim) b a = Some (vneg f)"
    by (simp add: pairForce_antisymmetric [of _ b a])
  have l0: "pairLoop sim 0 a 0 (Vec3 0 0 0) = Some f"
    using assms f
    by (simp add: pairLoop.simps [of _ _ _ 0] pairLoop.simps [of _ _ _ "Suc 0"]
          pairLoop.simps [of _ _ _ "Suc (Suc 0)"] arrayRead_def vadd_def)
  have l1: "pairLoop sim (Suc 0) b 0 (Vec3 0 0 0) = Some (vneg f)"
    using assms g
    by (simp add: pairLoop.simps [of _ _ _ 0] pairLoop.simps [of _ _ _ "Suc 0"]
          pairLoop.simps [of _ _ _ "Suc (Suc 0)"] arrayRead_def vadd_def vneg_def)
  have "forcesLoop sim 0 [] = Some [f, vneg f]"
    using assms
    by (simp add: forcesLoop.simps [of _ 0] forcesLoop.simps [of _ "Suc 0"]
          forcesLoop.simps [of _ "Suc (Suc 0)"] arrayRead_def l0 l1)
  with f show ?thesis by blast
qed

lemma updatePhysics_mirrored:
  assumes c: "Simulation.particleCount sim = 2"
    and mp: "mirroredPair (particles sim)"
    and m: "mass (particles sim ! 0) \<noteq> 0"
  shows "\<exists>sim'. updatePhysics delta sim = Some sim' \<and>
           Simulation.particleCount sim' = 2 \<and> mirroredPair (particles sim') \<and>
           mass (particles sim' ! 0) \<noteq> 0"
proof -
  obtain a b where ab: "particles sim = [a, b]"
    using mp by (cases "particles sim"; cases "tl (particles sim)") (auto simp add: mirroredPair_def)
  with mp have mir: "mirrored a b" by (simp add: mirroredPair_def)
  from m ab have ma: "mass a \<noteq> 0" by simp
  with mir have mb: "mass b \<noteq> 0" by (simp add: mirrored_def)
  obtain f where f: "forcesLoop sim 0 [] = Some [f, vneg f]"
    using forcesLoop_pair [OF c ab] by blast
  define dt where "dt = delta * timeScale sim"
  have pre: "nat (Simulation.particleCount sim) \<le> length [a, b]"
    "nat (Simulation.particleCount sim) \<le> length [f, vneg f]"
    "\<forall>j. 0 \<le> j \<and> j < nat (Simulation.particleCount sim) \<longrightarrow> mass ([a, b] ! j) \<noteq> 0"
    using c ma mb by (simp_all add: nth_Cons')
  obtain ps' where ps': "integrateLoop sim dt [f, vneg f] 0 [a, b] = Some ps'"
    "length ps' = 2"
    "\<forall>j < 2. ps' ! j =
        (if 0 \<le> j \<and> j < nat (Simulation.particleCount sim)
         then bounceParticle (eulerStep dt (Simulation.damping sim) ([f, vneg f] ! j) ([a, b] ! j))
         else [a, b] ! j)"
    using integrateLoop_result [OF pre, of dt] by auto
  have p0: "ps' ! 0 = boundaryConditions (eulerStep dt (Simulation.damping sim) f a)"
    using ps'(3) c by (simp add: bounceParticle_eq)
  have p1: "ps' ! 1 = boundaryConditions (eulerStep dt (Simulation.damping sim) (vneg f) b)"
    using ps'(3) c by (simp add: bounceParticle_eq)
  have "mirrored (ps' ! 0) (ps' ! 1)"
    unfolding p0 p1 by (intro boundaryConditions_mirrored eulerStep_mirrored mir)
  moreover have "mass (ps' ! 0) \<noteq> 0"
    unfolding p0 using ma by (simp add: boundaryConditions_axes eulerStep_def Let_def)
  moreover have "updatePhysics delta sim = Some (sim\<lparr>particles := ps'\<rparr>)"
    using f ps'(1) ab by (simp add: updatePhysics_def Let_def dt_def)
  ultimately show ?thesis
    using c ps'(2) by (simp add: mirroredPair_def)
qed

lemma physicsFrames_mirrored:
  assumes "Simulation.particleCount sim = 2" "mirroredPair (particles sim)"
    "mass (particles sim ! 0) \<noteq> 0"
  shows "\<exists>sim'. physicsFrames n sim = Some sim' \<and> mirroredPair (particles sim')"
  using assms
proof (induction n arbitrary: sim)
  case 0
  then show ?case by simp
next
  case (Suc n)
  obtain s1 where s1: "updatePhysics 0.016 sim = Some s1" "Simulation.particleCount s1 = 2"
    "mirroredPair (particles s1)" "mass (particles s1 ! 0) \<noteq> 0"
    using updatePhysics_mirrored [OF Suc.prems] by blast
  from Suc.IH [OF s1(2,3,4)] s1(1) show ?case by simp
qed

text \<open>
  One frame of the two compute passes on a pair: it has a result exactly when the force
  kernel has one, that is when the two particles do not coincide, and the masses are
  not zero; the result of a frame on a mirrored pair is then again a mirrored pair.
\<close>

lemma vsub_swap: "vsub a b = vneg (vsub b a)"
  by (simp add: vsub_def vneg_def)

lemma dot_vneg [simp]: "dot (vneg a) (vneg a) = dot a a"
  by (simp add: dot_def)

lemma vlength_vneg [simp]: "vlength (vneg a) = vlength a"
  by (simp add: vlength_def)

lemma vneg_Vec3: "vneg (Vec3 x y z) = Vec3 (- x) (- y) (- z)"
  by (simp add: vneg_def)

lemma normalize_vneg: "normalize (vneg a) = map_option vneg (normalize a)"
  unfolding normalize_def vlength_vneg by (simp add: vdiv_def fdiv_def vneg_Vec3)

lemma smul_vneg: "smul k (vneg a) = vneg (smul k a)"
  by (simp add: smul_def vneg_def)

lemma forceContribution_antisymmetric:
  "forceContribution P b a = map_option vneg (forceContribution P a b)"
proof -
  have r: "vsub (position a) (position b) = vneg (vsub (position b) (position a))"
    by (rule vsub_swap)
  have m: "SimParams.gravityStrength P * mass b * mass a
      = SimParams.gravityStrength P * mass a * mass b"
    by simp
  show ?thesis
    unfolding forceContribution_def Let_def r m dot_vneg normalize_vneg
    by (cases "fdiv (SimParams.gravityStrength P * mass a * mass b)
                 (dot (vsub (position b) (position a)) (vsub (position b) (position a)))";
        cases "normalize (vsub (position b) (position a))")
       (simp_all add: smul_vneg)
qed

lemma dispatch_computeForces_noop:
  "\<forall>i \<in> set is. SimParams.particleCount P \<le> i \<Longrightarrow> dispatch (computeForces P) is st = Some st"
  by (induction "is") (simp_all add: computeForces_def)

lemma dispatch_integrateParticles_noop:
  "\<forall>i \<in> set is. SimParams.particleCount P \<le> i \<Longrightarrow>
     dispatch (integrateParticles P) is st = Some st"
  by (induction "is") (simp_all add: integrateParticles_def)

lemma invocations_pair:
  "SimParams.particleCount P = 2 \<Longrightarrow> invocations P = 0 # 1 # [2 ..< 64]"
  by (simp add: invocations_def upt_conv_Cons)

lemma forceLoop_pair:
  assumes "SimParams.particleCount P = 2"
  shows "forceLoop P [a, b] 0 a 0 (Vec3 0 0 0) = forceContribution P a b"
    and "forceLoop P [a, b] 1 b 0 (Vec3 0 0 0) = forceContribution P b a"
proof -
  have z: "vadd (Vec3 0 0 0) f = f" for f by (cases f) (simp add: vadd_def)
  show "forceLoop P [a, b] 0 a 0 (Vec3 0 0 0) = forceContribution P a b"
    using assms
    by (cases "forceContribution P a b")
       (simp_all add: forceLoop.simps [of _ _ _ _ 0] forceLoop.simps [of _ _ _ _ "Suc 0"]
          forceLoop.simps [of _ _ _ _ "Suc (Suc 0)"] arrayRead_def z)
  show "forceLoop P [a, b] 1 b 0 (Vec3 0 0 0) = forceContribution P b a"
    using assms
    by (cases "forceContribution P b a")
       (simp_all add: forceLoop.simps [of _ _ _ _ 0] forceLoop.simps [of _ _ _ _ "Suc 0"]
          forceLoop.simps [of _ _ _ _ "Suc (Suc 0)"] arrayRead_def z)
qed

lemma computeFrame_pair:
  assumes c: "SimParams.particleCount P = 2"
    and pb: "particleBuffer st = [a, b]"
    and fb: "length (forceBuffer st) = 2"
  shows "computeFrame P st =
     (case forceContribution P a b of
        None \<Rightarrow> None
      | Some f \<Rightarrow>
          if mass a = 0 \<or> mass b = 0 then None
          else Some \<lparr>particleBuffer =
                       [boundaryConditions (eulerStep (deltaTime P) (SimParams.damping P) f a),
                        boundaryConditions (eulerStep (deltaTime P) (SimParams.damping P) (vneg f) b)],
                     forceBuffer = [f, vneg f]\<rparr>)"
proof (cases "forceContribution P a b")
  case None
  have "computeForces P 0 st = None"
    using c pb None by (simp add: computeForces_def arrayRead_def forceLoop_pair)
  then show ?thesis
    using None by (simp add: computeFrame_def invocations_pair [OF c])
next
  case (Some f)
  obtain u w where uw: "forceBuffer st = [u, w]"
    using fb by (cases "forceBuffer st"; cases "tl (forceBuffer st)") auto
  have st: "st = \<lparr>particleBuffer = [a, b], forceBuffer = [u, w]\<rparr>"
    using pb uw by (cases st) simp
  have g: "forceContribution P b a = Some (vneg f)"
    using Some by (simp add: forceContribution_antisymmetric [of P b a])
  have f0: "computeForces P 0 st = Some \<lparr>particleBuffer = [a, b], forceBuffer = [f, w]\<rparr>"
    using c Some by (simp add: st computeForces_def arrayRead_def forceLoop_pair)
  have f1: "computeForces P 1 \<lparr>particleBuffer = [a, b], forceBuffer = [f, w]\<rparr>
      = Some \<lparr>particleBuffer = [a, b], forceBuffer = [f, vneg f]\<rparr>"
    using c g forceLoop_pair(2) [OF c, of a b]
    by (simp add: computeForces_def arrayRead_def)
  have noopF: "dispatch (computeForces P) [2 ..< 64] s = Some s" for s
    by (rule dispatch_computeForces_noop) (simp add: c)
  have noopI: "dispatch (integrateParticles P) [2 ..< 64] s = Some s" for s
    by (rule dispatch_integrateParticles_noop) (simp add: c)
  have forces: "dispatch (computeForces P) (invocations P) st
      = Some \<lparr>particleBuffer = [a, b], forceBuffer = [f, vneg f]\<rparr>"
    by (simp only: invocations_pair [OF c] dispatch.simps f0 f1 noopF Option.bind.bind_lunit)
  show ?thesis
  proof (cases "mass a = 0 \<or> mass b = 0")
    case True
    then have "dispatch (integrateParticles P) (invocations P)
        \<lparr>particleBuffer = [a, b], forceBuffer = [f, vneg f]\<rparr> = None"
      using c
      by (auto simp add: invocations_pair [OF c] integrateParticles_def arrayRead_def
            integrateMotion_def vdiv_def fdiv_def integrateMotion_Some)
    with True Some forces show ?thesis by (simp add: computeFrame_def)
  next
    case False
    then have ma: "mass a \<noteq> 0" and mb: "mass b \<noteq> 0" by simp_all
    have i0: "integrateParticles P 0 \<lparr>particleBuffer = [a, b], forceBuffer = [f, vneg f]\<rparr>
        = Some \<lparr>particleBuffer =
                   [boundaryConditions (eulerStep (deltaTime P) (SimParams.damping P) f a), b],
                 forceBuffer = [f, vneg f]\<rparr>"
      using c ma by (simp add: integrateParticles_def arrayRead_def integrateMotion_Some)
    have i1: "integrateParticles P 1
         \<lparr>particleBuffer =
             [boundaryConditions (eulerStep (deltaTime P) (SimParams.damping P) f a), b],
          forceBuffer = [f, vneg f]\<rparr>
        = Some \<lparr>particleBuffer =
                   [boundaryConditions (eulerStep (deltaTime P) (SimParams.damping P) f a),
                    boundaryConditions (eulerStep (deltaTime P) (SimParams.damping P) (vneg f) b)],
                 forceBuffer = [f, vneg f]\<rparr>"
      using c mb by (simp add: integrateParticles_def arrayRead_def integrateMotion_Some)
    have "dispatch (integrateParticles P) (invocations P)
        \<lparr>particleBuffer = [a, b], forceBuffer = [f, vneg f]\<rparr>
        = Some \<lparr>particleBuffer =
                   [boundaryConditions (eulerStep (deltaTime P) (SimParams.damping P) f a),
                    boundaryConditions (eulerStep (deltaTime P) (SimParams.damping P) (vneg f) b)],
                 forceBuffer = [f, vneg f]\<rparr>"
      by (simp only: invocations_pair [OF c] dispatch.simps i0 i1 noopI Option.bind.bind_lunit)
    with False Some forces show ?thesis by (simp add: computeFrame_def)
  qed
qed

lemma mirroredPair_cases:
  assumes "mirroredPair ps"
  obtains a b where "ps = [a, b]" "mirrored a b"
  using assms
  by (cases ps; cases "tl ps") (auto simp add: mirroredPair_def)

lemma computeFrame_mirrored:
  assumes c: "SimParams.particleCount P = 2"
    and mp: "mirroredPair (particleBuffer st)"
    and fb: "length (forceBuffer st) = 2"
    and r: "computeFrame P st = Some st'"
  shows "mirroredPair (particleBuffer st') \<and> length (forceBuffer st') = 2"
proof -
  from mp obtain a b where ab: "particleBuffer st = [a, b]" and mir: "mirrored a b"
    by (rule mirroredPair_cases)
  from r obtain f where f: "forceContribution P a b = Some f"
    unfolding computeFrame_pair [OF c ab fb] by (cases "forceContribution P a b") simp_all
  from r have st': "st' = \<lparr>particleBuffer =
                       [boundaryConditions (eulerStep (deltaTime P) (SimParams.damping P) f a),
                        boundaryConditions (eulerStep (deltaTime P) (SimParams.damping P) (vneg f) b)],
                     forceBuffer = [f, vneg f]\<rparr>"
    unfolding computeFrame_pair [OF c ab fb] f by (simp split: if_splits)
  have "mirrored (boundaryConditions (eulerStep (deltaTime P) (SimParams.damping P) f a))
                 (boundaryConditions (eulerStep (deltaTime P) (SimParams.damping P) (vneg f) b))"
    by (intro boundaryConditions_mirrored eulerStep_mirrored mir)
  then show ?thesis
    by (simp add: st' mirroredPair_def)
qed

lemma computeFrames_mirrored:
  assumes "SimParams.particleCount P = 2" "mirroredPair (particleBuffer st)"
    "length (forceBuffer st) = 2" "computeFrames n P st = Some st'"
  shows "mirroredPair (particleBuffer st')"
  using assms
proof (induction n arbitrary: st)
  case 0
  then show ?case by simp
next
  case (Suc n)
  from Suc.prems(4) obtain s1 where s1: "computeFrame P st = Some s1"
    "computeFrames n P s1 = Some st'"
    by (auto split: Option.bind_splits)
  from computeFrame_mirrored [OF Suc.prems(1,2,3) s1(1)]
  show ?case using Suc.IH [OF Suc.prems(1) _ _ s1(2)] by blast
qed

lemma computeFrame_defined:
  assumes c: "SimParams.particleCount P = 2"
    and mp: "mirroredPair (particleBuffer st)"
    and fb: "length (forceBuffer st) = 2"
  shows "(\<exists>st'. computeFrame P st = Some st') \<longleftrightarrow>
           position (particleBuffer st ! 0) \<noteq> Vec3 0 0 0 \<and> mass (particleBuffer st ! 0) \<noteq> 0"
proof -
  from mp obtain a b where ab: "particleBuffer st = [a, b]" and mir: "mirrored a b"
    by (rule mirroredPair_cases)
  from mir have m: "mass b = mass a" and p: "position b = vneg (position a)"
    by (simp_all add: mirrored_def)
  have ne: "position b \<noteq> position a \<longleftrightarrow> position a \<noteq> Vec3 0 0 0"
    unfolding p by (cases "position a") (simp add: vneg_def)
  have d: "(\<exists>f. forceContribution P a b = Some f) \<longleftrightarrow> position a \<noteq> Vec3 0 0 0"
    using forceContribution_defined [of P a b] ne by simp
  show ?thesis
  proof (cases "forceContribution P a b")
    case None
    with d show ?thesis
      unfolding computeFrame_pair [OF c ab fb] ab by simp
  next
    case (Some f)
    with d show ?thesis
      unfolding computeFrame_pair [OF c ab fb] ab by (simp add: m)
  qed
qed

text \<open>
  Claim C6, at its failing input. Two particles of mass 1, both at the origin, with
  velocities \<open>(1, 0, 0)\<close> and \<open>(-1, 0, 0)\<close>, mirror each other; one frame of the two
  compute passes on them has no finite result, because the force kernel divides by
  their squared distance. (By the lemmas above this is the only way in which a
  mirrored pair of non-zero mass can lose its symmetry, and the CPU simulation never
  loses it.)
\<close>

theorem mirrored_pair_at_origin_breaks:
  "mirrored \<lparr>position = Vec3 0 0 0, mass = 1, velocity = Vec3 1 0 0, padding = 0\<rparr>
            \<lparr>position = Vec3 0 0 0, mass = 1, velocity = Vec3 (- 1) 0 0, padding = 0\<rparr>
   \<and> computeFrame \<lparr>SimParams.particleCount = 2, deltaTime = 0.016, SimParams.gravityStrength = 1, SimParams.damping = 1\<rparr>
      \<lparr>particleBuffer = [\<lparr>position = Vec3 0 0 0, mass = 1, velocity = Vec3 1 0 0, padding = 0\<rparr>,
                         \<lparr>position = Vec3 0 0 0, mass = 1, velocity = Vec3 (- 1) 0 0, padding = 0\<rparr>],
       forceBuffer = [Vec3 0 0 0, Vec3 0 0 0]\<rparr> = None"
proof -
  let ?a = "\<lparr>position = Vec3 0 0 0, mass = 1, velocity = Vec3 1 0 0, padding = 0\<rparr>"
  let ?b = "\<lparr>position = Vec3 0 0 0, mass = 1, velocity = Vec3 (- 1) 0 0, padding = 0\<rparr>"
  let ?P = "\<lparr>SimParams.particleCount = 2, deltaTime = 0.016, SimParams.gravityStrength = 1, SimParams.damping = 1\<rparr>"
  let ?S = "\<lparr>particleBuffer = [?a, ?b], forceBuffer = [Vec3 0 0 0, Vec3 0 0 0]\<rparr>"
  have fc: "forceContribution P ?a ?b = None" for P
    by (simp add: forceContribution_def Let_def fdiv_def dot_def vsub_def)
  have fl: "forceLoop P [?a, ?b] 0 ?a 0 (Vec3 0 0 0) = None"
    if "SimParams.particleCount P = 2" for P
    using that
    by (simp add: forceLoop.simps [of _ _ _ _ 0] forceLoop.simps [of _ _ _ _ "Suc 0"]
          arrayRead_def fc)
  have g: "computeForces P 0 ?S = None" if "SimParams.particleCount P = 2" for P
    using that by (simp add: computeForces_def arrayRead_def fl)
  have inv: "invocations P = 0 # [1 ..< 64]" if "SimParams.particleCount P = 2" for P
    using that by (simp add: invocations_def upt_conv_Cons)
  have "dispatch (computeForces ?P) (invocations ?P) ?S = None"
    by (simp add: inv g)
  then have "computeFrame ?P ?S = None"
    by (simp add: computeFrame_def)
  moreover have "mirrored ?a ?b"
    by (simp add: mirrored_def vneg_def)
  ultimately show ?thesis by simp
qed

end
